theory Spec2Isabelle
  imports Complex_Main
begin

section \<open>Python values shared by the modules\<close>

text \<open>
  Python floats are idealised as rationals: \<open>/\<close> is the exact quotient and the float
  literals of the source (\<open>0.4\<close>, \<open>0.01\<close>, ...) are the decimal fractions they
  denote. Exceptions are values of \<open>error\<close>; a function that can raise returns
  \<open>error + 'a\<close> with \<open>Inl\<close> for the exception.
\<close>

datatype error =
    AttributeError string
  | UnboundLocalError string
  | ValueError string
  | ZeroDivisionError
  | IndexError

text \<open>
  A \<open>dict\<close> is an association list in insertion order with pairwise distinct keys.
  \<open>dict_set\<close> is \<open>d[k] = v\<close>: an existing key keeps its position, a new key goes to
  the end. \<open>dict_get\<close> is \<open>d.get(k, default)\<close>.
\<close>

type_synonym ('k, 'v) dict = "('k \<times> 'v) list"

fun dict_set :: "'k \<Rightarrow> 'v \<Rightarrow> ('k, 'v) dict \<Rightarrow> ('k, 'v) dict" where
  "dict_set k v [] = [(k, v)]"
| "dict_set k v (p # d) = (if fst p = k then (k, v) # d else p # dict_set k v d)"

definition dict_get :: "('k, 'v) dict \<Rightarrow> 'k \<Rightarrow> 'v \<Rightarrow> 'v" where
  "dict_get d k dflt = (case map_of d k of None \<Rightarrow> dflt | Some v \<Rightarrow> v)"

text \<open>\<open>str.lower()\<close> on the ASCII letters, and the substring test \<open>sub in s\<close>.\<close>

definition lower_char :: "char \<Rightarrow> char" where
  "lower_char c =
     (case map_of (zip ''ABCDEFGHIJKLMNOPQRSTUVWXYZ'' ''abcdefghijklmnopqrstuvwxyz'') c of
        None \<Rightarrow> c | Some l \<Rightarrow> l)"

definition lower :: "string \<Rightarrow> string" where
  "lower s = map lower_char s"

fun startswith :: "string \<Rightarrow> string \<Rightarrow> bool" where
  "startswith s [] = True"
| "startswith [] (p # ps) = False"
| "startswith (c # cs) (p # ps) = (c = p \<and> startswith cs ps)"

fun str_contains :: "string \<Rightarrow> string \<Rightarrow> bool" where
  "str_contains sub [] = (sub = [])"
| "str_contains sub (c # cs) = (startswith (c # cs) sub \<or> str_contains sub cs)"

section \<open>Success metrics: \<open>PilotTestingFramework.measure_success_metrics\<close>\<close>

text \<open>
  An interaction event is a dict read through \<open>i.get(key)\<close> / \<open>i.get(key, default)\<close>;
  a field is \<open>None\<close> when the key is absent. Of a recommendation the function reads
  only \<open>r.get('category', '')\<close> and \<open>r.get('item_name', '')\<close>.
\<close>

record interaction =
  i_action :: "string option"
  i_item_name :: "string option"
  i_order_value :: "rat option"
  i_item_price :: "rat option"

record rec_view =
  r_category :: "string option"
  r_item_name :: "string option"

definition opt_or :: "'a option \<Rightarrow> 'a \<Rightarrow> 'a" where
  "opt_or x dflt = (case x of None \<Rightarrow> dflt | Some v \<Rightarrow> v)"

definition metric_keys :: "string list" where
  "metric_keys =
    [''recommendation_adoption_rate'', ''average_order_value_lift'',
     ''basket_size_increase_items'', ''revenue_per_recommendation'',
     ''upsell_success_rate'',
     ''click_through_rate'', ''add_to_cart_rate'', ''conversion_rate'',
     ''recommendation_interaction_time'', ''customer_satisfaction_score'',
     ''recommendation_accuracy'', ''response_time_ms'',
     ''personalization_effectiveness'', ''freshness_score'',
     ''cross_platform_consistency'',
     ''combo_completion_rate'', ''premium_item_upsell_rate'',
     ''category_diversification'', ''repeat_recommendation_avoidance'',
     ''complaint_rate'', ''order_abandonment_impact'',
     ''staff_productivity_impact'', ''system_error_rate'']"

definition initial_metrics :: "(string, rat) dict" where
  "initial_metrics = map (\<lambda>k. (k, 0)) metric_keys"

definition with_action :: "string \<Rightarrow> interaction list \<Rightarrow> interaction list" where
  "with_action a user_interactions = filter (\<lambda>i. i_action i = Some a) user_interactions"

definition np_mean :: "rat list \<Rightarrow> rat" where
  "np_mean xs = sum_list xs / of_nat (length xs)"

text \<open>
  The block under \<open>if total_recommendations > 0:\<close>. It returns the updated metrics
  and the list \<open>purchases\<close>, which later code reads.
\<close>

definition business_impact ::
  "rec_view list \<Rightarrow> interaction list \<Rightarrow> (string, rat) dict option \<Rightarrow> (string, rat) dict
    \<Rightarrow> (string, rat) dict \<times> interaction list" where
  "business_impact recommendations user_interactions baseline_data metrics =
    (let total_recommendations = length recommendations;
         total_interactions = length user_interactions;
         purchases = with_action ''purchase'' user_interactions;
         clicks = with_action ''click'' user_interactions;
         adds = with_action ''add_to_cart'' user_interactions;
         metrics = dict_set ''recommendation_adoption_rate''
                     (of_nat (length purchases) / of_nat total_recommendations) metrics;
         metrics = dict_set ''click_through_rate''
                     (of_nat (length clicks) / of_nat total_recommendations) metrics;
         metrics = dict_set ''add_to_cart_rate''
                     (of_nat (length adds) / of_nat total_recommendations) metrics;
         metrics = (if length clicks > 0
                    then dict_set ''conversion_rate''
                           (of_nat (length purchases) / of_nat (length clicks)) metrics
                    else metrics);
         metrics =
           (case baseline_data of
              None \<Rightarrow> metrics
            | Some b \<Rightarrow>
                (if b \<noteq> [] \<and> ''baseline_aov'' \<in> set (map fst b) then
                   (let current_aov =
                          (if user_interactions \<noteq> []
                           then sum_list (map (\<lambda>i. opt_or (i_order_value i) 0) user_interactions)
                                  / of_nat (length user_interactions)
                           else 0);
                        baseline_aov = dict_get b ''baseline_aov'' 0
                    in dict_set ''average_order_value_lift''
                         (if baseline_aov > 0 then (current_aov - baseline_aov) / baseline_aov
                          else 0) metrics)
                 else metrics));
         combo_interactions =
           filter (\<lambda>i. str_contains ''combo'' (lower (opt_or (i_item_name i) '''')))
             user_interactions;
         metrics = dict_set ''combo_completion_rate''
                     (if total_interactions > 0
                      then of_nat (length combo_interactions) / of_nat total_interactions
                      else 0) metrics;
         metrics =
           (if user_interactions \<noteq> [] then
              (let avg_price = np_mean (map (\<lambda>i. opt_or (i_item_price i) 0) user_interactions);
                   premium_purchases =
                     filter (\<lambda>i. opt_or (i_item_price i) 0 > avg_price) purchases
               in dict_set ''premium_item_upsell_rate''
                    (if length purchases > 0
                     then of_nat (length premium_purchases) / of_nat (length purchases)
                     else 0) metrics)
            else metrics);
         unique_categories = remdups (map (\<lambda>r. opt_or (r_category r) '''') recommendations);
         metrics = dict_set ''category_diversification''
                     (of_nat (length unique_categories) / 10) metrics;
         recommendation_items = map (\<lambda>r. opt_or (r_item_name r) '''') recommendations;
         unique_items = length (remdups recommendation_items);
         metrics = dict_set ''repeat_recommendation_avoidance''
                     (if recommendation_items \<noteq> []
                      then of_nat unique_items / of_nat (length recommendation_items)
                      else 0) metrics
     in (metrics, purchases))"

definition measure_success_metrics ::
  "rec_view list \<Rightarrow> interaction list \<Rightarrow> (string, rat) dict option
    \<Rightarrow> error + (string, rat) dict" where
  "measure_success_metrics recommendations user_interactions baseline_data =
    (let metrics = initial_metrics in
     if recommendations = [] \<or> user_interactions = [] then Inr metrics
     else
       (let total_recommendations = length recommendations;
            (metrics, purchases) =
              (if total_recommendations > 0
               then (let (m, p) = business_impact recommendations user_interactions
                                    baseline_data metrics
                     in (m, Some p))
               else (metrics, None));
            metrics = dict_set ''response_time_ms'' 250 metrics;
            metrics = dict_set ''system_error_rate'' (1 / 100) metrics;
            metrics = dict_set ''cross_platform_consistency'' (95 / 100) metrics
        in case purchases of
             None \<Rightarrow> Inl (UnboundLocalError ''purchases'')
           | Some purchases \<Rightarrow>
               (let metrics =
                      (if purchases \<noteq> [] then
                         (let adoption = dict_get metrics ''recommendation_adoption_rate'' 0;
                              metrics = dict_set ''recommendation_accuracy'' adoption metrics;
                              base_satisfaction = 35 / 10;
                              satisfaction_boost = adoption * (15 / 10)
                          in dict_set ''customer_satisfaction_score''
                               (min 5 (base_satisfaction + satisfaction_boost)) metrics)
                       else metrics);
                    metrics = dict_set ''complaint_rate''
                      (max 0 (5 / 100 - dict_get metrics ''customer_satisfaction_score'' 0 * (1 / 100)))
                      metrics
                in Inr metrics)))"



section \<open>Feature store: \<open>FeatureEngineer\<close>\<close>

text \<open>
  Of the orders frame the methods read the column names, the number of rows and the
  columns \<open>order_id\<close> and \<open>item_name\<close>: a frame is its column names and its rows
  projected on these two columns (the \<open>order_id\<close> component is not read when the column
  is absent).
\<close>

type_synonym order_id = int

record dataframe =
  columns :: "string list"
  rows :: "(order_id \<times> string) list"

text \<open>
  \<open>list(set(items))\<close>: the distinct items. Python fixes no order for it; the model
  takes the order of first appearance.
\<close>

definition list_of_set :: "'a list \<Rightarrow> 'a list" where
  "list_of_set items = rev (remdups (rev items))"

text \<open>\<open>Series.value_counts()\<close>: each distinct value with its count, largest count first.\<close>

definition value_counts :: "'a list \<Rightarrow> ('a \<times> nat) list" where
  "value_counts xs =
     sort_key (\<lambda>p. - int (snd p)) (map (\<lambda>x. (x, count_list xs x)) (list_of_set xs))"

definition calculate_item_frequency :: "dataframe \<Rightarrow> (string, rat) dict" where
  "calculate_item_frequency orders_df =
     (if ''item_name'' \<notin> set (columns orders_df) then []
      else
        (let total_items = length (rows orders_df);
             item_counts = value_counts (map snd (rows orders_df))
         in map (\<lambda>(item, count). (item, of_nat count / of_nat total_items)) item_counts))"

text \<open>
  \<open>orders_df.groupby('order_id')['item_name'].apply(list).to_dict()\<close>: the order ids in
  ascending order, each with its items in row order.
\<close>

definition group_items :: "dataframe \<Rightarrow> (order_id, string list) dict" where
  "group_items orders_df =
     map (\<lambda>oid. (oid, map snd (filter (\<lambda>r. fst r = oid) (rows orders_df))))
       (sort (remdups (map fst (rows orders_df))))"

text \<open>
  The two nested \<open>enumerate\<close> loops with the test \<open>i != j\<close>: the pairs
  \<open>(item1, item2)\<close> in the order in which the loop body runs.
\<close>

definition index_pairs :: "'a list \<Rightarrow> ('a \<times> 'a) list" where
  "index_pairs unique_items =
     concat (map (\<lambda>(i, item1).
        concat (map (\<lambda>(j, item2). if i \<noteq> j then [(item1, item2)] else [])
                  (enumerate 0 unique_items)))
       (enumerate 0 unique_items))"

text \<open>\<open>cooccurrence[item1][item2] += 1\<close> on a \<open>defaultdict\<close> of \<open>defaultdict(int)\<close>.\<close>

definition incr2 ::
  "'a \<Rightarrow> 'a \<Rightarrow> ('a, ('a, nat) dict) dict \<Rightarrow> ('a, ('a, nat) dict) dict" where
  "incr2 item1 item2 cooccurrence =
     (let inner = dict_get cooccurrence item1 []
      in dict_set item1 (dict_set item2 (dict_get inner item2 0 + 1) inner) cooccurrence)"

definition count_order ::
  "'a list \<Rightarrow> ('a, ('a, nat) dict) dict \<times> nat \<Rightarrow> ('a, ('a, nat) dict) dict \<times> nat" where
  "count_order items =
     fold (\<lambda>(item1, item2) (cooccurrence, total_pairs).
             (incr2 item1 item2 cooccurrence, total_pairs + 1))
       (index_pairs (list_of_set items))"

definition calculate_item_cooccurrence :: "dataframe \<Rightarrow> (string, (string, rat) dict) dict" where
  "calculate_item_cooccurrence orders_df =
     (if ''order_id'' \<notin> set (columns orders_df) \<or> ''item_name'' \<notin> set (columns orders_df)
      then []
      else
        (let order_items = group_items orders_df;
             (cooccurrence, total_pairs) =
                fold (\<lambda>(order_id, items). count_order items) order_items ([], 0)
         in map (\<lambda>(item1, item2_dict).
                   (item1, map (\<lambda>(item2, count).
                                  (item2, if total_pairs > 0
                                          then of_nat count / of_nat total_pairs else 0))
                             item2_dict))
              cooccurrence))"

text \<open>
  The object: \<open>__init__\<close> sets four empty dicts. No method of the class assigns any of
  them afterwards; the methods return their results.
\<close>

record feature_engineer =
  self_item_frequency :: "(string, rat) dict"
  self_item_cooccurrence :: "(string, (string, rat) dict) dict"
  self_customer_preferences :: "(string, (string, rat) dict) dict"
  self_store_patterns :: "(string, (string, rat) dict) dict"

definition FeatureEngineer_init :: feature_engineer where
  "FeatureEngineer_init =
     \<lparr>self_item_frequency = [], self_item_cooccurrence = [],
      self_customer_preferences = [], self_store_patterns = []\<rparr>"

definition py_div :: "rat \<Rightarrow> rat \<Rightarrow> error + rat" where
  "py_div a b = (if b = 0 then Inl ZeroDivisionError else Inr (a / b))"

text \<open>\<open>for item in set(items): item_support[item] += 1\<close>, over all orders.\<close>

definition support_counts :: "(order_id, string list) dict \<Rightarrow> (string, nat) dict" where
  "support_counts order_items =
     fold (\<lambda>(order_id, items) item_support.
             fold (\<lambda>item s. dict_set item (dict_get s item 0 + 1) s) (list_of_set items)
               item_support)
       order_items []"

text \<open>\<open>{item: count/total_orders for item, count in item_support.items()}\<close>\<close>

fun support_probs :: "(string, nat) dict \<Rightarrow> nat \<Rightarrow> error + (string, rat) dict" where
  "support_probs [] total_orders = Inr []"
| "support_probs ((item, count) # d) total_orders =
     (case py_div (of_nat count) (of_nat total_orders) of
        Inl e \<Rightarrow> Inl e
      | Inr p \<Rightarrow>
          (case support_probs d total_orders of
             Inl e \<Rightarrow> Inl e
           | Inr r \<Rightarrow> Inr ((item, p) # r)))"

text \<open>The body of the pair loop of one order, over the pairs in loop order.\<close>

fun rules_of_pairs ::
  "feature_engineer \<Rightarrow> (string, rat) dict \<Rightarrow> (string \<times> string) list
    \<Rightarrow> (string, (string \<times> rat) list) dict \<Rightarrow> error + (string, (string \<times> rat) list) dict" where
  "rules_of_pairs self item_support [] rules = Inr rules"
| "rules_of_pairs self item_support ((item_a, item_b) # ps) rules =
     (case py_div (dict_get (dict_get (self_item_cooccurrence self) item_a []) item_b 0)
                  (dict_get item_support item_a (1 / 1000)) of
        Inl e \<Rightarrow> Inl e
      | Inr confidence \<Rightarrow>
          rules_of_pairs self item_support ps
            (if confidence > 1 / 10
             then dict_set item_a (dict_get rules item_a [] @ [(item_b, confidence)]) rules
             else rules))"

fun rules_of_orders ::
  "feature_engineer \<Rightarrow> (string, rat) dict \<Rightarrow> (order_id, string list) dict
    \<Rightarrow> (string, (string \<times> rat) list) dict \<Rightarrow> error + (string, (string \<times> rat) list) dict" where
  "rules_of_orders self item_support [] rules = Inr rules"
| "rules_of_orders self item_support ((order_id, items) # os) rules =
     (case rules_of_pairs self item_support (index_pairs (list_of_set items)) rules of
        Inl e \<Rightarrow> Inl e
      | Inr rules' \<Rightarrow> rules_of_orders self item_support os rules')"

text \<open>\<open>sorted(xs, key=lambda x: x[1], reverse=True)\<close>: stable, largest score first.\<close>

definition sorted_by_score_desc :: "('a \<times> rat) list \<Rightarrow> ('a \<times> rat) list" where
  "sorted_by_score_desc xs = sort_key (\<lambda>x. - snd x) xs"

definition create_market_basket_rules ::
  "feature_engineer \<Rightarrow> dataframe \<Rightarrow> error + (string, (string \<times> rat) list) dict" where
  "create_market_basket_rules self orders_df =
     (if ''order_id'' \<notin> set (columns orders_df) \<or> ''item_name'' \<notin> set (columns orders_df)
      then Inr []
      else
        (let order_items = group_items orders_df;
             total_orders = length order_items
         in case support_probs (support_counts order_items) total_orders of
              Inl e \<Rightarrow> Inl e
            | Inr item_support \<Rightarrow>
                (case rules_of_orders self item_support order_items [] of
                   Inl e \<Rightarrow> Inl e
                 | Inr rules \<Rightarrow>
                     Inr (map (\<lambda>(item, rs). (item, take 10 (sorted_by_score_desc rs))) rules))))"

text \<open>
  \<open>create_features\<close>, restricted to the entries computed from the orders frame alone
  (\<open>customer_preferences\<close>, \<open>store_patterns\<close> and \<open>item_categories\<close> are left out).
\<close>

record feature_store =
  fs_item_frequency :: "(string, rat) dict"
  fs_item_cooccurrence :: "(string, (string, rat) dict) dict"
  fs_market_basket :: "(string, (string \<times> rat) list) dict"

definition create_features :: "feature_engineer \<Rightarrow> dataframe \<Rightarrow> error + feature_store" where
  "create_features self orders_df =
     (let item_frequency = calculate_item_frequency orders_df;
          item_cooccurrence = calculate_item_cooccurrence orders_df
      in case create_market_basket_rules self orders_df of
           Inl e \<Rightarrow> Inl e
         | Inr market_basket \<Rightarrow>
             Inr \<lparr>fs_item_frequency = item_frequency,
                  fs_item_cooccurrence = item_cooccurrence,
                  fs_market_basket = market_basket\<rparr>)"

text \<open>
  Reading the matrix the way \<open>_create_market_basket_rules\<close> does,
  \<open>m.get(a, {}).get(b, 0)\<close>, and the test whether the nested dict stores an entry for
  \<open>(a, b)\<close>.
\<close>

definition cooccurrence_of :: "('a, ('a, rat) dict) dict \<Rightarrow> 'a \<Rightarrow> 'a \<Rightarrow> rat" where
  "cooccurrence_of m a b = dict_get (dict_get m a []) b 0"

definition has_entry :: "('a, ('a, 'v) dict) dict \<Rightarrow> 'a \<Rightarrow> 'a \<Rightarrow> bool" where
  "has_entry m a b =
     (case map_of m a of None \<Rightarrow> False | Some inner \<Rightarrow> map_of inner b \<noteq> None)"

text \<open>
  The quantities of the specification, in its words: the count of orders in which both
  \<open>a\<close> and \<open>b\<close> appear, and the total count of ordered pairs across the whole dataset
  (an order with \<open>n\<close> distinct items has \<open>n (n - 1)\<close> ordered pairs of distinct items).
\<close>

definition orders_with_both :: "('o, 'a list) dict \<Rightarrow> 'a \<Rightarrow> 'a \<Rightarrow> nat" where
  "orders_with_both order_items a b =
     length (filter (\<lambda>(order_id, items). a \<in> set items \<and> b \<in> set items) order_items)"

definition total_ordered_pairs :: "('o, 'a list) dict \<Rightarrow> nat" where
  "total_ordered_pairs order_items =
     sum_list (map (\<lambda>(order_id, items). length (remdups items) * (length (remdups items) - 1))
                 order_items)"

text \<open>
  Two views of the loops used in the proofs: the pairs of distinct values of two lists, and
  the pairs visited over all orders, in loop order.
\<close>

definition value_pairs :: "'a list \<Rightarrow> 'a list \<Rightarrow> ('a \<times> 'a) list" where
  "value_pairs v u =
     concat (map (\<lambda>x. concat (map (\<lambda>y. if x \<noteq> y then [(x, y)] else []) u)) v)"

definition all_pairs :: "('o, 'a list) dict \<Rightarrow> ('a \<times> 'a) list" where
  "all_pairs order_items =
     concat (map (\<lambda>(order_id, items). index_pairs (list_of_set items)) order_items)"

text \<open>The orders of the end-to-end scenario of the specification.\<close>

definition orders3 :: dataframe where
  "orders3 = \<lparr>columns = [''order_id'', ''item_name''],
     rows = [(1, ''Traditional Wings''), (1, ''Ranch Dip''), (2, ''Traditional Wings''),
             (2, ''Fries''), (3, ''Fries''), (3, ''Soda'')]\<rparr>"

text \<open>A frame with the two columns and no rows, and a frame holding one order of two items.\<close>

definition no_orders :: dataframe where
  "no_orders = \<lparr>columns = [''order_id'', ''item_name''], rows = []\<rparr>"

definition wings_and_dip :: dataframe where
  "wings_and_dip = \<lparr>columns = [''order_id'', ''item_name''],
     rows = [(1, ''Wings''), (1, ''Dip'')]\<rparr>"

section \<open>Baseline recommender: \<open>RecommendationEngine\<close>\<close>

text \<open>
  The features dict is read through \<open>self.features.get(key, {})\<close> for four keys: a
  record of the four dicts (an absent key reads as the empty dict).
\<close>

record features =
  f_item_cooccurrence :: "(string, (string, rat) dict) dict"
  f_market_basket :: "(string, (string \<times> rat) list) dict"
  f_item_categories :: "(string, string) dict"
  f_item_frequency :: "(string, rat) dict"

text \<open>\<open>recommendations[k] += score\<close> on a \<open>defaultdict(float)\<close>.\<close>

definition add_score :: "'k \<Rightarrow> rat \<Rightarrow> ('k, rat) dict \<Rightarrow> ('k, rat) dict" where
  "add_score k score recommendations =
     dict_set k (dict_get recommendations k 0 + score) recommendations"

definition get_cooccurrence_recommendations ::
  "features \<Rightarrow> string list \<Rightarrow> string list \<Rightarrow> (string \<times> rat) list" where
  "get_cooccurrence_recommendations fs order_items exclude_items =
     (let cooccurrence = f_item_cooccurrence fs in
      fold (\<lambda>item recommendations.
              case map_of cooccurrence item of
                None \<Rightarrow> recommendations
              | Some related \<Rightarrow>
                  fold (\<lambda>(related_item, score) recommendations.
                          if related_item \<notin> set exclude_items
                          then add_score related_item score recommendations
                          else recommendations)
                    related recommendations)
        order_items [])"

definition get_market_basket_recommendations ::
  "features \<Rightarrow> string list \<Rightarrow> string list \<Rightarrow> (string \<times> rat) list" where
  "get_market_basket_recommendations fs order_items exclude_items =
     (let market_basket = f_market_basket fs in
      fold (\<lambda>item recommendations.
              case map_of market_basket item of
                None \<Rightarrow> recommendations
              | Some rules \<Rightarrow>
                  fold (\<lambda>(related_item, confidence) recommendations.
                          if related_item \<notin> set exclude_items
                          then add_score related_item confidence recommendations
                          else recommendations)
                    rules recommendations)
        order_items [])"

text \<open>Sets of category names are lists; only membership and emptiness are read.\<close>

definition complementary_rules :: "(string, string list) dict" where
  "complementary_rules =
     [(''wings'', [''drinks'', ''sides'']),
      (''drinks'', [''wings'', ''sides'', ''desserts'']),
      (''sides'', [''wings'', ''drinks'']),
      (''desserts'', [''drinks''])]"

definition get_complementary_categories :: "string list \<Rightarrow> string list" where
  "get_complementary_categories order_categories =
     (let complementary =
            fold (\<lambda>category complementary.
                    case map_of complementary_rules category of
                      None \<Rightarrow> complementary
                    | Some cs \<Rightarrow> complementary @ cs)
              order_categories []
      in if complementary = [] then [''wings'', ''drinks'', ''sides''] else complementary)"

definition get_category_recommendations ::
  "features \<Rightarrow> string list \<Rightarrow> string list \<Rightarrow> (string \<times> rat) list" where
  "get_category_recommendations fs order_items exclude_items =
     (let item_categories = f_item_categories fs;
          order_categories =
            fold (\<lambda>item order_categories.
                    case map_of item_categories item of
                      None \<Rightarrow> order_categories
                    | Some c \<Rightarrow> order_categories @ [c])
              order_items [];
          complementary_categories = get_complementary_categories order_categories
      in fold (\<lambda>(item, category) recommendations.
                 if item \<notin> set exclude_items \<and> category \<in> set complementary_categories
                 then (let item_freq = dict_get (f_item_frequency fs) item 0
                       in add_score item (item_freq * (5 / 10)) recommendations)
                 else recommendations)
           item_categories [])"

definition get_popularity_recommendations ::
  "features \<Rightarrow> string list \<Rightarrow> (string \<times> rat) list" where
  "get_popularity_recommendations fs exclude_items =
     (let recommendations =
            filter (\<lambda>(item, freq). item \<notin> set exclude_items) (f_item_frequency fs)
      in take 10 (sorted_by_score_desc recommendations))"

text \<open>
  One of the four loops of \<open>_recommend_items\<close>:
  \<open>recommendations[item] = recommendations.get(item, 0) + score * weight\<close>.
\<close>

definition blend ::
  "rat \<Rightarrow> (string \<times> rat) list \<Rightarrow> (string, rat) dict \<Rightarrow> (string, rat) dict" where
  "blend weight recs recommendations =
     fold (\<lambda>(item, score) recommendations.
             dict_set item (dict_get recommendations item 0 + score * weight) recommendations)
       recs recommendations"

text \<open>The dict \<open>recommendations\<close> after the four loops.\<close>

definition combined_scores ::
  "features \<Rightarrow> string list \<Rightarrow> string list \<Rightarrow> (string, rat) dict" where
  "combined_scores fs order_items exclude_items =
     (let recommendations = [];
          cooccurrence_recs = get_cooccurrence_recommendations fs order_items exclude_items;
          recommendations = blend (4 / 10) cooccurrence_recs recommendations;
          basket_recs = get_market_basket_recommendations fs order_items exclude_items;
          recommendations = blend (3 / 10) basket_recs recommendations;
          category_recs = get_category_recommendations fs order_items exclude_items;
          recommendations = blend (2 / 10) category_recs recommendations;
          popularity_recs = get_popularity_recommendations fs exclude_items;
          recommendations = blend (1 / 10) popularity_recs recommendations
      in recommendations)"

definition recommend_items ::
  "features \<Rightarrow> string list \<Rightarrow> string list option \<Rightarrow> string list" where
  "recommend_items fs order_items exclude_items =
     (let exclude_items = (case exclude_items of None \<Rightarrow> [] | Some xs \<Rightarrow> xs);
          recommendations = combined_scores fs order_items exclude_items;
          sorted_recs = sorted_by_score_desc recommendations
      in map fst (take 3 sorted_recs))"

text \<open>
  The blender in the words of the specification: the score a generator gives an item (the
  sum over the entries of its output for that item), and the sum of the four contributions
  with the weights 0.4, 0.3, 0.2 and 0.1.
\<close>

definition generator_score :: "(string \<times> rat) list \<Rightarrow> string \<Rightarrow> rat" where
  "generator_score recs item = sum_list (map snd (filter (\<lambda>p. fst p = item) recs))"

definition weighted_sum ::
  "(string \<times> rat) list \<Rightarrow> (string \<times> rat) list \<Rightarrow> (string \<times> rat) list
    \<Rightarrow> (string \<times> rat) list \<Rightarrow> string \<Rightarrow> rat" where
  "weighted_sum cooccurrence_recs basket_recs category_recs popularity_recs item =
     4 / 10 * generator_score cooccurrence_recs item
     + 3 / 10 * generator_score basket_recs item
     + 2 / 10 * generator_score category_recs item
     + 1 / 10 * generator_score popularity_recs item"

text \<open>
  A test row is a Series: column names with values. A value is a string, an integer or
  NaN. \<open>str(v)\<close> and \<open>str.strip()\<close> on ASCII.
\<close>

datatype pyval = PStr string | PInt int | PNaN

type_synonym series = "(string, pyval) dict"

function str_of_nat :: "nat \<Rightarrow> string" where
  "str_of_nat n =
     (if n < 10 then [''0123456789'' ! n]
      else str_of_nat (n div 10) @ [''0123456789'' ! (n mod 10)])"
  by pat_completeness auto
termination
  by (relation "measure id") auto

declare str_of_nat.simps [simp del]

definition py_str :: "pyval \<Rightarrow> string" where
  "py_str v =
     (case v of
        PStr s \<Rightarrow> s
      | PInt i \<Rightarrow> (if i < 0 then ''-'' @ str_of_nat (nat (- i)) else str_of_nat (nat i))
      | PNaN \<Rightarrow> ''nan'')"

definition is_space :: "char \<Rightarrow> bool" where
  "is_space c = (c \<in> set [CHR 0x20, CHR 0x09, CHR 0x0A, CHR 0x0B, CHR 0x0C, CHR 0x0D,
                             CHR 0x1C, CHR 0x1D, CHR 0x1E, CHR 0x1F])"

definition strip :: "string \<Rightarrow> string" where
  "strip s = rev (dropWhile is_space (rev (dropWhile is_space s)))"

definition extract_order_items :: "series \<Rightarrow> string list" where
  "extract_order_items order_row =
     fold (\<lambda>col items.
             case map_of order_row col of
               None \<Rightarrow> items
             | Some item \<Rightarrow>
                 if item \<noteq> PNaN \<and> strip (py_str item) \<noteq> '''' \<and> py_str item \<noteq> ''nan''
                 then items @ [strip (py_str item)]
                 else items)
       [''item1'', ''item2'', ''item3''] []"

text \<open>The engine object: \<open>__init__\<close>, \<open>train\<close> and \<open>predict\<close>.\<close>

record recommendation_engine =
  e_features :: "features option"
  e_trained :: bool
  e_item_similarity :: "(string, (string, rat) dict) dict"
  e_popularity_scores :: "(string, rat) dict"

definition RecommendationEngine_init :: recommendation_engine where
  "RecommendationEngine_init =
     \<lparr>e_features = None, e_trained = False, e_item_similarity = [],
      e_popularity_scores = []\<rparr>"

text \<open>\<open>{item: freq/max_freq for item, freq in item_frequency.items()}\<close>\<close>

fun normalise_scores :: "(string, rat) dict \<Rightarrow> rat \<Rightarrow> error + (string, rat) dict" where
  "normalise_scores [] max_freq = Inr []"
| "normalise_scores ((item, freq) # d) max_freq =
     (case py_div freq max_freq of
        Inl e \<Rightarrow> Inl e
      | Inr p \<Rightarrow>
          (case normalise_scores d max_freq of
             Inl e \<Rightarrow> Inl e
           | Inr r \<Rightarrow> Inr ((item, p) # r)))"

definition train :: "recommendation_engine \<Rightarrow> features \<Rightarrow> error + recommendation_engine" where
  "train self fs =
     (let self = self\<lparr>e_features := Some fs\<rparr>;
          item_frequency = f_item_frequency fs;
          max_freq = (if item_frequency \<noteq> [] then Max (set (map snd item_frequency)) else 1)
      in case normalise_scores item_frequency max_freq of
           Inl e \<Rightarrow> Inl e
         | Inr scores \<Rightarrow> Inr (self\<lparr>e_popularity_scores := scores, e_trained := True\<rparr>))"

text \<open>\<open>while len(recs) < 3: recs.append("popular_item_fallback")\<close>\<close>

function pad_recs :: "string list \<Rightarrow> string list" where
  "pad_recs recs =
     (if length recs < 3 then pad_recs (recs @ [''popular_item_fallback'']) else recs)"
  by pat_completeness auto
termination
  by (relation "measure (\<lambda>recs. 3 - length recs)") auto

declare pad_recs.simps [simp del]

record prediction =
  p_CUSTOMER_ID :: pyval
  p_ORDER_ID :: pyval
  p_item1 :: pyval
  p_item2 :: pyval
  p_item3 :: pyval
  p_RECOMMENDATION_1 :: string
  p_RECOMMENDATION_2 :: string
  p_RECOMMENDATION_3 :: string

text \<open>The body of the loop of \<open>predict\<close> for the row with index \<open>idx\<close>.\<close>

definition predict_row :: "features option \<Rightarrow> int \<Rightarrow> series \<Rightarrow> error + prediction" where
  "predict_row fs idx row =
     (case fs of
        None \<Rightarrow> Inl (AttributeError ''get'')
      | Some fs \<Rightarrow>
          (let order_items = extract_order_items row;
               recs = recommend_items fs order_items (Some order_items);
               recs = pad_recs recs
           in case recs of
                r1 # r2 # r3 # _ \<Rightarrow>
                  Inr \<lparr>p_CUSTOMER_ID = dict_get row ''CUSTOMER_ID'' (PInt idx),
                       p_ORDER_ID = dict_get row ''ORDER_ID'' (PInt idx),
                       p_item1 = dict_get row ''item1'' (PStr ''''),
                       p_item2 = dict_get row ''item2'' (PStr ''''),
                       p_item3 = dict_get row ''item3'' (PStr ''''),
                       p_RECOMMENDATION_1 = r1,
                       p_RECOMMENDATION_2 = r2,
                       p_RECOMMENDATION_3 = r3\<rparr>
              | _ \<Rightarrow> Inl IndexError))"

fun predict_rows :: "features option \<Rightarrow> (int \<times> series) list \<Rightarrow> error + prediction list" where
  "predict_rows fs [] = Inr []"
| "predict_rows fs ((idx, row) # rest) =
     (case predict_row fs idx row of
        Inl e \<Rightarrow> Inl e
      | Inr p \<Rightarrow>
          (case predict_rows fs rest of
             Inl e \<Rightarrow> Inl e
           | Inr ps \<Rightarrow> Inr (p # ps)))"

definition predict ::
  "recommendation_engine \<Rightarrow> (int \<times> series) list \<Rightarrow> error + prediction list" where
  "predict self test_data =
     (if \<not> e_trained self
      then Inl (ValueError ''Model must be trained before making predictions'')
      else predict_rows (e_features self) test_data)"

text \<open>The features of the three orders of the scenario, and a test frame of two rows.\<close>

definition scenario_features :: features where
  "scenario_features =
     \<lparr>f_item_cooccurrence =
        [(''Traditional Wings'', [(''Ranch Dip'', 1 / 6), (''Fries'', 1 / 6)]),
         (''Ranch Dip'', [(''Traditional Wings'', 1 / 6)]),
         (''Fries'', [(''Traditional Wings'', 1 / 6), (''Soda'', 1 / 6)]),
         (''Soda'', [(''Fries'', 1 / 6)])],
      f_market_basket = [],
      f_item_categories = [],
      f_item_frequency =
        [(''Traditional Wings'', 1 / 3), (''Fries'', 1 / 3), (''Ranch Dip'', 1 / 6),
         (''Soda'', 1 / 6)]\<rparr>"

definition empty_features :: features where
  "empty_features =
     \<lparr>f_item_cooccurrence = [], f_market_basket = [], f_item_categories = [],
      f_item_frequency = []\<rparr>"

definition trained_on_nothing :: recommendation_engine where
  "trained_on_nothing =
     \<lparr>e_features = Some empty_features, e_trained = True, e_item_similarity = [],
      e_popularity_scores = []\<rparr>"

definition one_test_row :: "(int \<times> series) list" where
  "one_test_row = [(0, [(''CUSTOMER_ID'', PInt 7), (''item1'', PStr ''Fries''), (''item2'', PNaN)])]"

text \<open>
  The three recommendation fields of a row as one expression: the blender's output for the
  row's items, padded to three with the literal.
\<close>

definition padded :: "features \<Rightarrow> series \<Rightarrow> string list" where
  "padded fs row =
     (let order_items = extract_order_items row;
          recs = recommend_items fs order_items (Some order_items)
      in recs @ replicate (3 - length recs) ''popular_item_fallback'')"

section \<open>Enhanced recommender: \<open>EnhancedRecommendationEngine\<close>\<close>

text \<open>
  The attributes an instance has: those \<open>__init__\<close> assigns and the methods the class
  defines. The class has no base class and no \<open>__getattr__\<close>, so \<open>self.name\<close> for any
  other name raises \<open>AttributeError\<close>.
\<close>

definition instance_attributes :: "string list" where
  "instance_attributes =
     [''features'', ''trained'', ''customer_profiles'', ''customer_history'',
      ''customer_preferences'', ''recommendation_history'', ''trending_items'',
      ''seasonal_items'', ''metrics'', ''platform_configs'']"

definition class_methods :: "string list" where
  "class_methods =
     [''__init__'', ''analyze_customer_behavior'', ''create_customer_personas'',
      ''generate_fresh_recommendations'', ''measure_success'', ''setup_ab_testing'',
      ''get_user_variant'', ''_get_base_recommendations'', ''_get_trending_items'',
      ''_get_seasonal_items'', ''_get_fallback_items'', ''_calculate_confidence'',
      ''_generate_explanation'', ''_get_item_category'', ''_is_new_item'',
      ''_is_premium_item'']"

definition engine_attributes :: "string list" where
  "engine_attributes = instance_attributes @ class_methods"

text \<open>
  \<open>self.name\<close> on an object whose attributes are \<open>attrs\<close>: the value the name is bound
  to, or \<open>AttributeError\<close>.
\<close>

definition getattr :: "string list \<Rightarrow> string \<Rightarrow> 'a \<Rightarrow> error + 'a" where
  "getattr attrs name bound = (if name \<in> set attrs then Inr bound else Inl (AttributeError name))"

text \<open>
  The nine helpers \<open>generate_fresh_recommendations\<close> calls are defined nowhere in the
  repository. The method body is modelled over the functions these names would be bound
  to; whether a name is bound at all is decided by the attribute list.
\<close>

record helpers =
  h_get_wings_r_us_recommendations ::
    "string list \<Rightarrow> string \<Rightarrow> string \<Rightarrow> string \<Rightarrow> string option \<Rightarrow> string list"
  h_ensure_category_diversity :: "string list \<Rightarrow> string list \<Rightarrow> nat \<Rightarrow> string list"
  h_get_wings_r_us_trending_items :: "string list \<Rightarrow> string option \<Rightarrow> string list"
  h_get_wings_r_us_seasonal_items :: "string list \<Rightarrow> string list"
  h_get_wings_r_us_fallback_items :: "string list \<Rightarrow> string \<Rightarrow> string option \<Rightarrow> string list"
  h_calculate_wings_r_us_confidence :: "string \<Rightarrow> string list \<Rightarrow> string \<Rightarrow> string \<Rightarrow> rat"
  h_generate_wings_r_us_explanation :: "string \<Rightarrow> string list \<Rightarrow> string \<Rightarrow> string \<Rightarrow> string"
  h_get_wings_r_us_category :: "string \<Rightarrow> string"
  h_calculate_item_freshness :: "string \<Rightarrow> string \<Rightarrow> rat"

text \<open>\<open>self.platform_configs\<close>, set by \<open>__init__\<close> and never assigned again.\<close>

record platform_config =
  cfg_max_recommendations :: nat
  cfg_include_images :: bool
  cfg_context :: string

definition platform_configs :: "(string, platform_config) dict" where
  "platform_configs =
     [(''app'', \<lparr>cfg_max_recommendations = 3, cfg_include_images = True, cfg_context = ''mobile''\<rparr>),
      (''website'', \<lparr>cfg_max_recommendations = 5, cfg_include_images = True, cfg_context = ''desktop''\<rparr>),
      (''kiosk'', \<lparr>cfg_max_recommendations = 3, cfg_include_images = False, cfg_context = ''in_store''\<rparr>)]"

definition max_recs_of :: "string \<Rightarrow> nat" where
  "max_recs_of platform =
     (let platform_key = (if platform = ''Digital'' then ''app'' else ''kiosk'');
          config = dict_get platform_configs platform_key
                     \<lparr>cfg_max_recommendations = 3, cfg_include_images = True, cfg_context = ''mobile''\<rparr>
      in cfg_max_recommendations config)"

text \<open>
  Time: a \<open>datetime\<close> is a number of microseconds, and \<open>timedelta.days\<close> is the whole
  number of days, rounded down. \<open>datetime.now()\<close> is read several times during a call:
  \<open>clock k\<close> is the \<open>k\<close>-th reading. The list comprehension over the history reads it
  once per entry.
\<close>

type_synonym datetime = int

definition day :: int where
  "day = 86400000000"

definition timedelta_days :: "int \<Rightarrow> int" where
  "timedelta_days delta = delta div day"

definition recent_recommendations :: "(nat \<Rightarrow> datetime) \<Rightarrow> (string \<times> datetime) list \<Rightarrow> string list" where
  "recent_recommendations clock history =
     (let history_window_days = 7 in
      map (\<lambda>(k, item, timestamp). item)
        (filter (\<lambda>(k, item, timestamp). timedelta_days (clock k - timestamp) \<le> history_window_days)
           (enumerate 0 history)))"

definition fresh_recs :: "string list \<Rightarrow> string list \<Rightarrow> string list" where
  "fresh_recs base_recs recent = filter (\<lambda>item. item \<notin> set recent) base_recs"

text \<open>\<open>max(1, int(max_recs * fraction))\<close>\<close>

definition share_count :: "nat \<Rightarrow> rat \<Rightarrow> nat" where
  "share_count max_recs fraction = max 1 (nat \<lfloor>of_nat max_recs * fraction\<rfloor>)"

text \<open>\<open>xs[:n]\<close> for an integer \<open>n\<close>, which counts from the end when negative.\<close>

definition slice_to :: "'a list \<Rightarrow> int \<Rightarrow> 'a list" where
  "slice_to xs n = (if 0 \<le> n then take (nat n) xs else take (length xs - nat (- n)) xs)"

text \<open>
  \<open>random.sample(population, k)\<close>: \<open>k\<close> elements at distinct positions. The random
  source is a function that, shown the population still available, names a position in
  it (taken modulo its length).
\<close>

fun sample_from :: "('a list \<Rightarrow> nat) \<Rightarrow> 'a list \<Rightarrow> nat \<Rightarrow> 'a list" where
  "sample_from pick population 0 = []"
| "sample_from pick population (Suc k) =
     (if population = [] then []
      else (let i = pick population mod length population
            in population ! i
               # sample_from pick (take i population @ drop (Suc i) population) k))"

definition random_sample :: "('a list \<Rightarrow> nat) \<Rightarrow> 'a list \<Rightarrow> nat \<Rightarrow> error + 'a list" where
  "random_sample pick population k =
     (if k > length population
      then Inl (ValueError ''Sample larger than population or is negative'')
      else Inr (sample_from pick population k))"

text \<open>The fallback loop; \<open>fallback\<close> is the result of looking the helper up.\<close>

function fallback_loop ::
  "(error + (string list \<Rightarrow> string \<Rightarrow> string option \<Rightarrow> string list))
    \<Rightarrow> string list \<Rightarrow> string \<Rightarrow> string option \<Rightarrow> nat \<Rightarrow> string list
    \<Rightarrow> error + string list" where
  "fallback_loop fallback current_items customer_type store_number max_recs final_recs =
     (if length final_recs < max_recs then
        (case fallback of
           Inl e \<Rightarrow> Inl e
         | Inr get_fallback_items \<Rightarrow>
             (case get_fallback_items (final_recs @ current_items) customer_type store_number of
                [] \<Rightarrow> Inr final_recs
              | item # _ \<Rightarrow>
                  fallback_loop fallback current_items customer_type store_number max_recs
                    (final_recs @ [item])))
      else Inr final_recs)"
  by pat_completeness auto
termination
  by (relation "measure (\<lambda>(fallback, current_items, customer_type, store_number, max_recs,
                            final_recs). max_recs - length final_recs)") auto

declare fallback_loop.simps [simp del]

record rec_metadata =
  md_category :: string
  md_is_combo :: bool
  md_is_wings :: bool
  md_is_trending :: bool
  md_is_seasonal :: bool
  md_freshness_score :: rat

record recommendation =
  rc_item_name :: string
  rc_rank :: nat
  rc_recommendation_type :: string
  rc_platform :: string
  rc_store_number :: "string option"
  rc_customer_type :: string
  rc_confidence_score :: rat
  rc_explanation :: string
  rc_metadata :: rec_metadata

text \<open>
  The body of the loop over \<open>enumerate(final_recs[:max_recs])\<close>: the four helpers are
  looked up in the order in which the dict literal evaluates its values.
\<close>

definition make_recommendation ::
  "string list \<Rightarrow> helpers \<Rightarrow> string list \<Rightarrow> string list \<Rightarrow> string list \<Rightarrow> string
    \<Rightarrow> string \<Rightarrow> string \<Rightarrow> string option \<Rightarrow> nat \<times> string \<Rightarrow> error + recommendation" where
  "make_recommendation attrs h trending_items seasonal_items current_items customer_id
      customer_type platform store_number ix =
     (case ix of (i, item) \<Rightarrow>
       (let rec_type = (if item \<in> set trending_items then ''trending''
                        else if item \<in> set seasonal_items then ''seasonal''
                        else ''personalized'')
        in case getattr attrs ''_calculate_wings_r_us_confidence''
                  (h_calculate_wings_r_us_confidence h) of
             Inl e \<Rightarrow> Inl e
           | Inr confidence \<Rightarrow>
          (case getattr attrs ''_generate_wings_r_us_explanation''
                  (h_generate_wings_r_us_explanation h) of
             Inl e \<Rightarrow> Inl e
           | Inr explain \<Rightarrow>
          (case getattr attrs ''_get_wings_r_us_category'' (h_get_wings_r_us_category h) of
             Inl e \<Rightarrow> Inl e
           | Inr category \<Rightarrow>
          (case getattr attrs ''_calculate_item_freshness'' (h_calculate_item_freshness h) of
             Inl e \<Rightarrow> Inl e
           | Inr freshness \<Rightarrow>
               Inr \<lparr>rc_item_name = item,
                    rc_rank = i + 1,
                    rc_recommendation_type = rec_type,
                    rc_platform = platform,
                    rc_store_number = store_number,
                    rc_customer_type = customer_type,
                    rc_confidence_score = confidence item current_items customer_id customer_type,
                    rc_explanation = explain item current_items rec_type customer_type,
                    rc_metadata =
                      \<lparr>md_category = category item,
                       md_is_combo = str_contains ''combo'' (lower item),
                       md_is_wings = str_contains ''wing'' (lower item),
                       md_is_trending = (item \<in> set trending_items),
                       md_is_seasonal = (item \<in> set seasonal_items),
                       md_freshness_score = freshness item customer_id\<rparr>\<rparr>)))))"

fun make_recommendations ::
  "((nat \<times> string) \<Rightarrow> error + recommendation) \<Rightarrow> (nat \<times> string) list
    \<Rightarrow> error + recommendation list" where
  "make_recommendations build [] = Inr []"
| "make_recommendations build (ix # rest) =
     (case build ix of
        Inl e \<Rightarrow> Inl e
      | Inr r \<Rightarrow>
          (case make_recommendations build rest of
             Inl e \<Rightarrow> Inl e
           | Inr rs \<Rightarrow> Inr (r # rs)))"

text \<open>
  The last two statements of the method: every returned item is appended to the
  customer's history with one timestamp, and entries not younger than 30 days are dropped.
\<close>

definition update_history ::
  "datetime \<Rightarrow> datetime \<Rightarrow> string \<Rightarrow> recommendation list
    \<Rightarrow> (string, (string \<times> datetime) list) dict \<Rightarrow> (string, (string \<times> datetime) list) dict" where
  "update_history timestamp now customer_id recommendations recommendation_history =
     (let appended = dict_get recommendation_history customer_id []
                       @ map (\<lambda>rec. (rc_item_name rec, timestamp)) recommendations;
          cutoff_date = now - 30 * day
      in dict_set customer_id (filter (\<lambda>(item, ts). ts > cutoff_date) appended)
           recommendation_history)"

text \<open>
  The method. Its arguments beyond the source's are the attribute list of \<open>self\<close>, the
  functions the helper names are bound to, the clock, the random source and the field
  \<open>self.recommendation_history\<close>, which it returns updated.
\<close>

definition generate_fresh_recommendations ::
  "string list \<Rightarrow> helpers \<Rightarrow> (nat \<Rightarrow> datetime) \<Rightarrow> (string list \<Rightarrow> nat)
    \<Rightarrow> (string, (string \<times> datetime) list) dict
    \<Rightarrow> string \<Rightarrow> string list \<Rightarrow> string \<Rightarrow> string \<Rightarrow> string option
    \<Rightarrow> error + recommendation list \<times> (string, (string \<times> datetime) list) dict" where
  "generate_fresh_recommendations attrs h clock pick recommendation_history
      customer_id current_items customer_type platform store_number =
     (let max_recs = max_recs_of platform;
          history = dict_get recommendation_history customer_id [];
          recent = recent_recommendations clock history
      in
      case getattr attrs ''_get_wings_r_us_recommendations''
             (h_get_wings_r_us_recommendations h) of
        Inl e \<Rightarrow> Inl e
      | Inr get_recommendations \<Rightarrow>
      (let base_recs = get_recommendations current_items customer_id customer_type platform
                         store_number;
           fresh = fresh_recs base_recs recent
       in
       case getattr attrs ''_ensure_category_diversity'' (h_ensure_category_diversity h) of
         Inl e \<Rightarrow> Inl e
       | Inr ensure_category_diversity \<Rightarrow>
       (let category_recommendations = ensure_category_diversity fresh current_items max_recs;
            trending_count = share_count max_recs (2 / 10)
        in
        case getattr attrs ''_get_wings_r_us_trending_items''
               (h_get_wings_r_us_trending_items h) of
          Inl e \<Rightarrow> Inl e
        | Inr get_trending_items \<Rightarrow>
        (let trending_items =
               get_trending_items (current_items @ category_recommendations) store_number;
             seasonal_count = share_count max_recs (1 / 10)
         in
         case getattr attrs ''_get_wings_r_us_seasonal_items''
                (h_get_wings_r_us_seasonal_items h) of
           Inl e \<Rightarrow> Inl e
         | Inr get_seasonal_items \<Rightarrow>
         (let seasonal_items =
                get_seasonal_items (current_items @ category_recommendations @ trending_items);
              base_count = int max_recs - int trending_count - int seasonal_count;
              final_recs = slice_to category_recommendations base_count
          in
          case (if trending_items \<noteq> []
                then random_sample pick (take (min 10 (length trending_items)) trending_items)
                       (min trending_count (length trending_items))
                else Inr []) of
            Inl e \<Rightarrow> Inl e
          | Inr trending_sample \<Rightarrow>
          (let final_recs = final_recs @ trending_sample;
               final_recs = final_recs @ take seasonal_count seasonal_items
           in
           case fallback_loop
                  (getattr attrs ''_get_wings_r_us_fallback_items''
                     (h_get_wings_r_us_fallback_items h))
                  current_items customer_type store_number max_recs final_recs of
             Inl e \<Rightarrow> Inl e
           | Inr final_recs \<Rightarrow>
           (case make_recommendations
                   (make_recommendation attrs h trending_items seasonal_items current_items
                      customer_id customer_type platform store_number)
                   (enumerate 0 (take max_recs final_recs)) of
              Inl e \<Rightarrow> Inl e
            | Inr recommendations \<Rightarrow>
                (let n = length history;
                     timestamp = clock n;
                     now = clock (n + 1)
                 in Inr (recommendations,
                         update_history timestamp now customer_id recommendations
                           recommendation_history)))))))))"

text \<open>
  Stand-ins for the absent helpers, used to run the body: the class's mock helpers under
  the names the method calls (\<open>_get_base_recommendations\<close>, \<open>_get_trending_items\<close>,
  \<open>_get_seasonal_items\<close> outside December and January, \<open>_get_fallback_items\<close>,
  \<open>_generate_explanation\<close>, \<open>_get_item_category\<close>), a fixed confidence and freshness, and a
  diversity pass that keeps the first \<open>max_recs\<close> candidates.
\<close>

definition mock_explanation :: "string \<Rightarrow> string list \<Rightarrow> string \<Rightarrow> string \<Rightarrow> string" where
  "mock_explanation item current_items rec_type customer_type =
     dict_get
       [(''personalized'',
           ''Based on your preferences, customers like you often enjoy '' @ item),
        (''trending'', item @ '' is trending among Wings R Us customers right now''),
        (''seasonal'', item @ '' is a seasonal favorite perfect for this time of year'')]
       rec_type (item @ '' pairs well with your current selection'')"

definition mock_category :: "string \<Rightarrow> string" where
  "mock_category item =
     (if str_contains ''wing'' (lower item) then ''wings''
      else if str_contains ''fries'' (lower item) then ''fries''
      else if str_contains ''dip'' (lower item) \<or> str_contains ''sauce'' (lower item)
      then ''dips_sauces''
      else ''other'')"

definition mock_helpers :: helpers where
  "mock_helpers =
     \<lparr>h_get_wings_r_us_recommendations =
        (\<lambda>current_items customer_id customer_type platform store_number.
           [''Regular Buffalo Fries'', ''10 pc Spicy Wings'', ''Ranch Dip - Regular'']),
      h_ensure_category_diversity = (\<lambda>recs current_items max_recs. take max_recs recs),
      h_get_wings_r_us_trending_items =
        (\<lambda>exclude store_number.
           filter (\<lambda>item. item \<notin> set exclude)
             [''Honey BBQ Wings'', ''Spicy Chicken Sandwich'', ''Buffalo Cauliflower'']),
      h_get_wings_r_us_seasonal_items =
        (\<lambda>exclude. filter (\<lambda>item. item \<notin> set exclude) [''Summer Special Wings'']),
      h_get_wings_r_us_fallback_items =
        (\<lambda>exclude customer_type store_number.
           filter (\<lambda>item. item \<notin> set exclude)
             [''Buffalo Wings'', ''French Fries'', ''Soft Drink'']),
      h_calculate_wings_r_us_confidence =
        (\<lambda>item current_items customer_id customer_type. 8 / 10),
      h_generate_wings_r_us_explanation = mock_explanation,
      h_get_wings_r_us_category = mock_category,
      h_calculate_item_freshness = (\<lambda>item customer_id. 1)\<rparr>"

definition helper_names :: "string list" where
  "helper_names =
     [''_get_wings_r_us_recommendations'', ''_ensure_category_diversity'',
      ''_get_wings_r_us_trending_items'', ''_get_wings_r_us_seasonal_items'',
      ''_get_wings_r_us_fallback_items'', ''_calculate_wings_r_us_confidence'',
      ''_generate_wings_r_us_explanation'', ''_get_wings_r_us_category'',
      ''_calculate_item_freshness'']"

text \<open>
  A customer who was shown honey BBQ wings at time 0, asked again two days later, with a
  random source that always names the first position.
\<close>

definition shown_before :: "(string, (string \<times> datetime) list) dict" where
  "shown_before = [(''customer_1'', [(''Honey BBQ Wings'', 0)])]"

definition two_days_later :: "nat \<Rightarrow> datetime" where
  "two_days_later k = 2 * day"




definition first_position :: "string list \<Rightarrow> nat" where
  "first_position population = 0"




section \<open>Properties\<close>

lemma map_of_dict_set: "map_of (dict_set k v d) = (map_of d)(k \<mapsto> v)"
  by (induction d) (auto simp: fun_eq_iff)

lemma keys_dict_set:
  "map fst (dict_set k v d) = (if k \<in> fst ` set d then map fst d else map fst d @ [k])"
  by (induction d) auto




lemma dict_get_dict_set:
  "dict_get (dict_set k v d) k' dflt = (if k' = k then v else dict_get d k' dflt)"
  by (simp add: dict_get_def map_of_dict_set)

subsection \<open>Success metrics\<close>

text \<open>
  C7. \<open>measure_success_metrics([], [], None)\<close> returns (it does not raise) the dict of
  the 23 metric keys, each with value 0.
\<close>

theorem measure_success_metrics_empty:
  "measure_success_metrics [] [] None = Inr (map (\<lambda>k. (k, 0)) metric_keys)
   \<and> length metric_keys = 23 \<and> distinct metric_keys"
proof -
  have "measure_success_metrics [] [] None = Inr (map (\<lambda>k. (k, 0)) metric_keys)"
    by (simp add: measure_success_metrics_def initial_metrics_def)
  moreover have "length metric_keys = 23"
    by (simp add: metric_keys_def)
  moreover have "distinct metric_keys"
    by code_simp
  ultimately show ?thesis by simp
qed


lemma business_impact_purchases:
  "snd (business_impact rs us b m) = with_action ''purchase'' us"
  by (simp add: business_impact_def Let_def)









subsection \<open>Feature store: the co-occurrence matrix\<close>

lemma distinct_list_of_set: "distinct (list_of_set xs)"
  by (simp add: list_of_set_def)

lemma set_list_of_set: "set (list_of_set xs) = set xs"
  by (simp add: list_of_set_def)

lemma length_list_of_set: "length (list_of_set xs) = length (remdups xs)"
  by (simp add: list_of_set_def length_remdups_card_conv)

lemma set_dict_set: "set (dict_set k v d) \<subseteq> insert (k, v) (set d)"
  by (induction d) auto

lemma distinct_keys_dict_set:
  "distinct (map fst d) \<Longrightarrow> distinct (map fst (dict_set k v d))"
  by (induction d) (auto simp: keys_dict_set image_iff)

lemma map_enumerate_snd: "map (\<lambda>(i, x). f x) (enumerate n u) = map f u"
  by (induction u arbitrary: n) simp_all

lemma index_pairs_distinct:
  assumes "distinct u"
  shows "index_pairs u = value_pairs u u"
proof -
  have mem: "\<And>i x. (i, x) \<in> set (enumerate 0 u) \<Longrightarrow> i < length u \<and> x = u ! i"
    by (auto simp: in_set_enumerate_eq)
  have inner: "\<And>i x. (i, x) \<in> set (enumerate 0 u) \<Longrightarrow>
      concat (map (\<lambda>(j, y). if i \<noteq> j then [(x, y)] else []) (enumerate 0 u))
    = concat (map (\<lambda>y. if x \<noteq> y then [(x, y)] else []) u)"
  proof -
    fix i x assume ix: "(i, x) \<in> set (enumerate 0 u)"
    have "map (\<lambda>(j, y). if i \<noteq> j then [(x, y)] else []) (enumerate 0 u)
        = map (\<lambda>(j, y). if x \<noteq> y then [(x, y)] else []) (enumerate 0 u)"
      using mem [OF ix] assms
      by (intro map_cong refl) (auto dest!: mem simp: nth_eq_iff_index_eq)
    then show "concat (map (\<lambda>(j, y). if i \<noteq> j then [(x, y)] else []) (enumerate 0 u))
        = concat (map (\<lambda>y. if x \<noteq> y then [(x, y)] else []) u)"
      by (simp add: map_enumerate_snd)
  qed
  have "map (\<lambda>(i, item1). concat (map (\<lambda>(j, item2). if i \<noteq> j then [(item1, item2)] else [])
                  (enumerate 0 u))) (enumerate 0 u)
      = map (\<lambda>(i, x). concat (map (\<lambda>y. if x \<noteq> y then [(x, y)] else []) u)) (enumerate 0 u)"
    by (intro map_cong refl) (auto simp: inner)
  then show ?thesis
    by (simp add: index_pairs_def value_pairs_def map_enumerate_snd)
qed

lemma count_inner_pairs:
  "count_list (concat (map (\<lambda>y. if x \<noteq> y then [(x, y)] else []) u)) (a, b)
     = (if x = a \<and> a \<noteq> b then count_list u b else 0)"
  by (induction u) auto

lemma count_value_pairs:
  "count_list (value_pairs v u) (a, b) = (if a \<noteq> b then count_list v a * count_list u b else 0)"
  by (induction v) (auto simp: value_pairs_def count_inner_pairs)

lemma count_list_distinct: "distinct u \<Longrightarrow> count_list u a = (if a \<in> set u then 1 else 0)"
  by (induction u) auto

lemma count_index_pairs:
  "distinct u \<Longrightarrow>
   count_list (index_pairs u) (a, b) = (if a \<in> set u \<and> b \<in> set u \<and> a \<noteq> b then 1 else 0)"
  by (simp add: index_pairs_distinct count_value_pairs count_list_distinct)

lemma length_inner_pairs_notin:
  "x \<notin> set u \<Longrightarrow>
   length (concat (map (\<lambda>y. if x \<noteq> y then [(x, y)] else []) u)) = length u"
  by (induction u) auto

lemma length_inner_pairs:
  "distinct u \<Longrightarrow> x \<in> set u \<Longrightarrow>
   length (concat (map (\<lambda>y. if x \<noteq> y then [(x, y)] else []) u)) = length u - 1"
proof (induction u)
  case Nil
  then show ?case by simp
next
  case (Cons y u)
  show ?case
  proof (cases "x = y")
    case True
    with Cons.prems have "x \<notin> set u" by simp
    from length_inner_pairs_notin [OF this] True show ?thesis by simp
  next
    case False
    with Cons have "length (concat (map (\<lambda>y. if x \<noteq> y then [(x, y)] else []) u)) = length u - 1"
      and "u \<noteq> []" by auto
    with False show ?thesis by (cases u) auto
  qed
qed

lemma length_value_pairs:
  "distinct u \<Longrightarrow> set v \<subseteq> set u \<Longrightarrow> length (value_pairs v u) = length v * (length u - 1)"
  by (induction v) (auto simp: value_pairs_def length_inner_pairs)

lemma length_index_pairs: "distinct u \<Longrightarrow> length (index_pairs u) = length u * (length u - 1)"
  by (simp add: index_pairs_distinct length_value_pairs)

lemma incr2_get:
  "dict_get (dict_get (incr2 x y d) a []) b 0
     = dict_get (dict_get d a []) b 0 + (if x = a \<and> y = b then 1 else 0)"
  by (auto simp: incr2_def Let_def dict_get_dict_set)

lemma incr2_has_entry:
  "has_entry (incr2 x y d) a b \<longleftrightarrow> has_entry d a b \<or> (x = a \<and> y = b)"
  by (auto simp: has_entry_def incr2_def Let_def map_of_dict_set dict_get_def split: option.splits)

lemma fold_incr2_get:
  "dict_get (dict_get (fold (\<lambda>(x, y). incr2 x y) ps d) a []) b 0
     = dict_get (dict_get d a []) b 0 + count_list ps (a, b)"
  by (induction ps arbitrary: d) (auto simp: incr2_get case_prod_unfold)

lemma fold_incr2_has_entry:
  "has_entry (fold (\<lambda>(x, y). incr2 x y) ps d) a b \<longleftrightarrow> has_entry d a b \<or> (a, b) \<in> set ps"
proof (induction ps arbitrary: d)
  case Nil
  show ?case by simp
next
  case (Cons p ps)
  obtain x y where p: "p = (x, y)" by (cases p)
  show ?case
    unfolding p by (simp only: fold_simps case_prod_conv Cons.IH incr2_has_entry) auto
qed

lemma fold_pairs_state:
  "fold (\<lambda>(item1, item2) (cooccurrence, total_pairs).
             (incr2 item1 item2 cooccurrence, total_pairs + 1)) ps (c, t)
     = (fold (\<lambda>(x, y). incr2 x y) ps c, t + length ps)"
  by (induction ps arbitrary: c t) auto

lemma count_order_eq:
  "count_order items (c, t)
     = (fold (\<lambda>(x, y). incr2 x y) (index_pairs (list_of_set items)) c,
        t + length (index_pairs (list_of_set items)))"
  unfolding count_order_def by (rule fold_pairs_state)

lemma fold_count_order:
  "fold (\<lambda>(order_id, items). count_order items) os (c, t)
     = (fold (\<lambda>(x, y). incr2 x y) (all_pairs os) c, t + length (all_pairs os))"
  by (induction os arbitrary: c t) (auto simp: all_pairs_def count_order_eq)

lemma count_all_pairs:
  "count_list (all_pairs os) (a, b) = (if a \<noteq> b then orders_with_both os a b else 0)"
  by (induction os)
     (auto simp: all_pairs_def orders_with_both_def count_index_pairs
        distinct_list_of_set set_list_of_set)

lemma length_all_pairs: "length (all_pairs os) = total_ordered_pairs os"
  by (induction os)
     (auto simp: all_pairs_def total_ordered_pairs_def length_index_pairs
        distinct_list_of_set length_list_of_set)

lemma set_all_pairs:
  "(a, b) \<in> set (all_pairs os) \<longleftrightarrow> a \<noteq> b \<and> orders_with_both os a b > 0"
proof -
  have "(a, b) \<in> set (all_pairs os) \<longleftrightarrow> count_list (all_pairs os) (a, b) \<noteq> 0"
    by (simp add: count_list_0_iff)
  then show ?thesis by (simp add: count_all_pairs)
qed

lemma count_le_length: "count_list xs x \<le> length xs"
  by (induction xs) auto

lemma map_of_prob:
  "map_of (map (\<lambda>(item1, item2_dict). (item1, map (\<lambda>(item2, count). (item2, g count)) item2_dict)) c) a
    = map_option (map (\<lambda>(item2, count). (item2, g count))) (map_of c a)"
  by (induction c) auto

lemma map_of_inner_prob:
  "map_of (map (\<lambda>(item2, count). (item2, g count)) d) b = map_option g (map_of d b)"
  by (induction d) auto

lemma calculate_item_cooccurrence_eq:
  assumes "''order_id'' \<in> set (columns df)" and "''item_name'' \<in> set (columns df)"
  shows "calculate_item_cooccurrence df =
    map (\<lambda>(item1, item2_dict).
           (item1, map (\<lambda>(item2, count).
                          (item2, if total_ordered_pairs (group_items df) > 0
                                  then of_nat count / of_nat (total_ordered_pairs (group_items df)) else 0))
                     item2_dict))
      (fold (\<lambda>(x, y). incr2 x y) (all_pairs (group_items df)) [])"
  using assms
  by (simp add: calculate_item_cooccurrence_def Let_def fold_count_order length_all_pairs)

lemma cooccurrence_of_prob:
  assumes "g 0 = 0"
  shows "cooccurrence_of
       (map (\<lambda>(item1, item2_dict). (item1, map (\<lambda>(item2, count). (item2, g count)) item2_dict)) c) a b
     = g (dict_get (dict_get c a []) b 0)"
  using assms
  by (simp add: cooccurrence_of_def dict_get_def map_of_prob map_of_inner_prob
        split: option.splits)

lemma has_entry_prob:
  "has_entry
       (map (\<lambda>(item1, item2_dict). (item1, map (\<lambda>(item2, count). (item2, g count)) item2_dict)) c) a b
     = has_entry c a b"
  by (simp add: has_entry_def map_of_prob map_of_inner_prob split: option.splits)

lemma has_entry_empty: "\<not> has_entry [] a b"
  by (simp add: has_entry_def)

lemma counted_pairs:
  "dict_get (dict_get (fold (\<lambda>(x, y). incr2 x y) (all_pairs os) []) a []) b 0
     = (if a \<noteq> b then orders_with_both os a b else 0)"
  by (simp only: fold_incr2_get count_all_pairs) (simp add: dict_get_def)

lemma cooccurrence_of_calculate:
  assumes "''order_id'' \<in> set (columns orders_df)" and "''item_name'' \<in> set (columns orders_df)"
  shows "cooccurrence_of (calculate_item_cooccurrence orders_df) a b
     = (if a = b \<or> total_ordered_pairs (group_items orders_df) = 0 then 0
        else of_nat (orders_with_both (group_items orders_df) a b)
               / of_nat (total_ordered_pairs (group_items orders_df)))"
  by (simp add: calculate_item_cooccurrence_eq [OF assms] cooccurrence_of_prob counted_pairs)

lemma has_entry_calculate:
  assumes "''order_id'' \<in> set (columns orders_df)" and "''item_name'' \<in> set (columns orders_df)"
  shows "has_entry (calculate_item_cooccurrence orders_df) a b
     \<longleftrightarrow> a \<noteq> b \<and> orders_with_both (group_items orders_df) a b > 0"
  by (simp add: calculate_item_cooccurrence_eq [OF assms] has_entry_prob
        fold_incr2_has_entry has_entry_empty set_all_pairs)

lemma orders_with_both_le_total:
  "a \<noteq> b \<Longrightarrow> orders_with_both os a b \<le> total_ordered_pairs os"
  using count_le_length [of "all_pairs os" "(a, b)"]
  by (simp add: count_all_pairs length_all_pairs)

text \<open>
  C5. When the frame has the columns \<open>order_id\<close> and \<open>item_name\<close>, the co-occurrence
  value of two distinct items is the number of orders holding both, over the total number of
  ordered pairs of the dataset (0 when there is no pair); every value lies between 0 and 1;
  no item has an entry with itself; and the matrix stores an entry for \<open>(a, b)\<close> exactly
  when the items are distinct and share an order.
\<close>

theorem cooccurrence_probability:
  assumes "''order_id'' \<in> set (columns orders_df)" and "''item_name'' \<in> set (columns orders_df)"
  shows "(a \<noteq> b \<longrightarrow>
            cooccurrence_of (calculate_item_cooccurrence orders_df) a b
              = (if total_ordered_pairs (group_items orders_df) = 0 then 0
                 else of_nat (orders_with_both (group_items orders_df) a b)
                        / of_nat (total_ordered_pairs (group_items orders_df))))
       \<and> 0 \<le> cooccurrence_of (calculate_item_cooccurrence orders_df) a b
       \<and> cooccurrence_of (calculate_item_cooccurrence orders_df) a b \<le> 1
       \<and> \<not> has_entry (calculate_item_cooccurrence orders_df) a a
       \<and> (has_entry (calculate_item_cooccurrence orders_df) a b
            \<longleftrightarrow> a \<noteq> b \<and> orders_with_both (group_items orders_df) a b > 0)"
proof -
  let ?v = "cooccurrence_of (calculate_item_cooccurrence orders_df) a b"
  have v: "?v = (if a = b \<or> total_ordered_pairs (group_items orders_df) = 0 then 0
        else of_nat (orders_with_both (group_items orders_df) a b)
               / of_nat (total_ordered_pairs (group_items orders_df)))"
    by (rule cooccurrence_of_calculate [OF assms])
  have "0 \<le> ?v" by (simp add: v)
  moreover have "?v \<le> 1"
    using orders_with_both_le_total [of a b "group_items orders_df"]
    by (simp add: v)
  moreover have "\<not> has_entry (calculate_item_cooccurrence orders_df) a a"
    by (simp add: has_entry_calculate [OF assms])
  ultimately show ?thesis
    by (simp add: v has_entry_calculate [OF assms])
qed

lemma group_items_orders3:
  "group_items orders3 =
     [(1, [''Traditional Wings'', ''Ranch Dip'']), (2, [''Traditional Wings'', ''Fries'']),
      (3, [''Fries'', ''Soda''])]"
  by (simp add: group_items_def orders3_def)

text \<open>In the three orders of the scenario, wings and ranch dip share one order of six pairs.\<close>

theorem cooccurrence_probability_witness:
  "cooccurrence_of (calculate_item_cooccurrence orders3) ''Traditional Wings'' ''Ranch Dip'' = 1 / 6
   \<and> \<not> has_entry (calculate_item_cooccurrence orders3) ''Traditional Wings'' ''Traditional Wings''
   \<and> has_entry (calculate_item_cooccurrence orders3) ''Traditional Wings'' ''Ranch Dip''"
proof -
  have c: "''order_id'' \<in> set (columns orders3)" "''item_name'' \<in> set (columns orders3)"
    by (simp_all add: orders3_def)
  show ?thesis
    using cooccurrence_probability [OF c, of "''Traditional Wings''" "''Ranch Dip''"]
    by (simp add: group_items_orders3 orders_with_both_def total_ordered_pairs_def)
qed

subsection \<open>Feature store: empty input and the market-basket rules\<close>


lemma positive_dict_set:
  "\<forall>(k, v) \<in> set d. 0 < v \<Longrightarrow> 0 < n \<Longrightarrow> \<forall>(k, v) \<in> set (dict_set item n d). (0::nat) < v"
  using set_dict_set [of item n d] by auto

lemma positive_count_items:
  "\<forall>(k, v) \<in> set d. 0 < v \<Longrightarrow>
   \<forall>(k, v) \<in> set (fold (\<lambda>item s. dict_set item (dict_get s item 0 + 1) s) xs d). (0::nat) < v"
proof (induction xs arbitrary: d)
  case Nil
  then show ?case by simp
next
  case (Cons x xs)
  have "\<forall>(k, v) \<in> set (dict_set x (dict_get d x 0 + 1) d). 0 < v"
    by (rule positive_dict_set [OF Cons.prems]) simp
  from Cons.IH [OF this] show ?case by simp
qed

lemma positive_fold_orders:
  "\<forall>(k, v) \<in> set d. 0 < v \<Longrightarrow>
   \<forall>(k, v) \<in> set (fold (\<lambda>(order_id, items) item_support.
             fold (\<lambda>item s. dict_set item (dict_get s item 0 + 1) s) (list_of_set items)
               item_support) os d). (0::nat) < v"
proof (induction os arbitrary: d)
  case Nil
  then show ?case by simp
next
  case (Cons p os)
  obtain oid items where p: "p = (oid, items)" by (cases p)
  have "\<forall>(k, v) \<in> set (fold (\<lambda>item s. dict_set item (dict_get s item 0 + 1) s)
          (list_of_set items) d). 0 < v"
    by (rule positive_count_items [OF Cons.prems])
  from Cons.IH [OF this] show ?case by (simp add: p)
qed

lemma positive_support_counts: "\<forall>(k, v) \<in> set (support_counts os). 0 < v"
  unfolding support_counts_def by (rule positive_fold_orders) simp

lemma support_counts_Nil: "support_counts [] = []"
  by (simp add: support_counts_def)

lemma support_probs_ok:
  "0 < n \<Longrightarrow> support_probs d n = Inr (map (\<lambda>(item, count). (item, of_nat count / of_nat n)) d)"
  by (induction d) (auto simp: py_div_def)

lemma support_nonzero:
  assumes "\<forall>(k, v) \<in> set d. (0::nat) < v" and "0 < n"
  shows "dict_get (map (\<lambda>(item, count). (item, of_nat count / of_nat n)) d) a (1 / 1000) \<noteq> (0::rat)"
proof (cases "map_of (map (\<lambda>(item, count). (item, rat_of_nat count / of_nat n)) d) a")
  case None
  then show ?thesis by (simp add: dict_get_def)
next
  case (Some v)
  then have "(a, v) \<in> set (map (\<lambda>(item, count). (item, rat_of_nat count / of_nat n)) d)"
    by (rule map_of_SomeD)
  then obtain c where "(a, c) \<in> set d" and v: "v = of_nat c / of_nat n" by auto
  with assms have "0 < c" by auto
  with v \<open>0 < n\<close> have "v \<noteq> 0" by simp
  with Some show ?thesis by (simp add: dict_get_def)
qed

lemma dict_get_Nil: "dict_get [] k dflt = dflt"
  by (simp add: dict_get_def)

lemma rules_of_pairs_no_cooccurrence:
  assumes "self_item_cooccurrence self = []" and "\<And>a. dict_get item_support a (1 / 1000) \<noteq> 0"
  shows "rules_of_pairs self item_support ps rules = Inr rules"
  by (induction ps arbitrary: rules) (auto simp: assms py_div_def dict_get_Nil)

lemma rules_of_orders_no_cooccurrence:
  assumes "self_item_cooccurrence self = []" and "\<And>a. dict_get item_support a (1 / 1000) \<noteq> 0"
  shows "rules_of_orders self item_support os rules = Inr rules"
  by (induction os arbitrary: rules) (auto simp: rules_of_pairs_no_cooccurrence [OF assms])

text \<open>
  While \<open>self.item_cooccurrence\<close> is empty every confidence is 0, no rule passes the
  threshold, and the rule set is empty for every frame.
\<close>

lemma rules_empty_without_cooccurrence:
  assumes "self_item_cooccurrence self = []"
  shows "create_market_basket_rules self orders_df = Inr []"
proof (cases "''order_id'' \<notin> set (columns orders_df) \<or> ''item_name'' \<notin> set (columns orders_df)")
  case True
  then show ?thesis by (auto simp: create_market_basket_rules_def)
next
  case cols: False
  let ?os = "group_items orders_df"
  show ?thesis
  proof (cases "?os = []")
    case True
    with cols show ?thesis
      by (simp add: create_market_basket_rules_def support_counts_Nil)
  next
    case False
    then have n: "0 < length ?os" by simp
    let ?sup = "map (\<lambda>(item, count). (item, rat_of_nat count / of_nat (length ?os))) (support_counts ?os)"
    have sp: "support_probs (support_counts ?os) (length ?os) = Inr ?sup"
      by (rule support_probs_ok [OF n])
    have nz: "\<And>a. dict_get ?sup a (1 / 1000) \<noteq> 0"
      by (rule support_nonzero [OF positive_support_counts n])
    have "rules_of_orders self ?sup ?os [] = Inr []"
      by (rule rules_of_orders_no_cooccurrence [OF assms nz])
    with cols sp show ?thesis
      by (simp add: create_market_basket_rules_def Let_def)
  qed
qed

lemma group_items_Nil: "rows orders_df = [] \<Longrightarrow> group_items orders_df = []"
  by (simp add: group_items_def)

text \<open>
  C9. For a frame without rows the item frequencies and the co-occurrence matrix are the
  empty dict, the market-basket rules are computed without an exception and are the empty
  dict, whatever the state of the object, and \<open>create_features\<close> returns these three.
\<close>

theorem empty_orders_empty_features:
  assumes "rows orders_df = []"
  shows "calculate_item_frequency orders_df = []
       \<and> calculate_item_cooccurrence orders_df = []
       \<and> create_market_basket_rules self orders_df = Inr []
       \<and> create_features self orders_df
            = Inr \<lparr>fs_item_frequency = [], fs_item_cooccurrence = [], fs_market_basket = []\<rparr>"
proof -
  have f: "calculate_item_frequency orders_df = []"
    using assms by (simp add: calculate_item_frequency_def value_counts_def list_of_set_def)
  have c: "calculate_item_cooccurrence orders_df = []"
    using assms by (simp add: calculate_item_cooccurrence_def group_items_Nil)
  have m: "create_market_basket_rules self orders_df = Inr []"
    using assms
    by (simp add: create_market_basket_rules_def group_items_Nil support_counts_Nil)
  show ?thesis
    by (simp add: f c m create_features_def)
qed

text \<open>The frame with both columns and no rows.\<close>

theorem empty_orders_empty_features_witness:
  "rows no_orders = []
   \<and> calculate_item_frequency no_orders = []
   \<and> calculate_item_cooccurrence no_orders = []
   \<and> create_features FeatureEngineer_init no_orders
        = Inr \<lparr>fs_item_frequency = [], fs_item_cooccurrence = [], fs_market_basket = []\<rparr>"
proof -
  have r: "rows no_orders = []" by (simp add: no_orders_def)
  from empty_orders_empty_features [OF r, of FeatureEngineer_init] r show ?thesis by simp
qed

lemma group_items_wings_and_dip: "group_items wings_and_dip = [(1, [''Wings'', ''Dip''])]"
  by (simp add: group_items_def wings_and_dip_def)

lemma cooccurrence_wings_and_dip:
  "calculate_item_cooccurrence wings_and_dip
     = [(''Wings'', [(''Dip'', 1 / 2)]), (''Dip'', [(''Wings'', 1 / 2)])]"
  by (simp add: calculate_item_cooccurrence_def group_items_wings_and_dip count_order_def
        list_of_set_def index_pairs_def incr2_def dict_get_def enumerate_eq_zip upt_rec)
     (simp add: wings_and_dip_def)

lemma support_wings_and_dip:
  "support_probs (support_counts [(1, [''Wings'', ''Dip''])]) (Suc 0) = Inr [(''Wings'', 1), (''Dip'', 1)]"
  by (simp add: support_counts_def list_of_set_def dict_get_def py_div_def)

lemma rules_with_matrix_wings_and_dip:
  "create_market_basket_rules
     (FeatureEngineer_init\<lparr>self_item_cooccurrence := calculate_item_cooccurrence wings_and_dip\<rparr>)
     wings_and_dip
   = Inr [(''Wings'', [(''Dip'', 1 / 2)]), (''Dip'', [(''Wings'', 1 / 2)])]"
  by (simp add: create_market_basket_rules_def Let_def group_items_wings_and_dip
        support_wings_and_dip FeatureEngineer_init_def cooccurrence_wings_and_dip list_of_set_def index_pairs_def
        enumerate_eq_zip upt_rec dict_get_def py_div_def sorted_by_score_desc_def)
     (simp add: wings_and_dip_def)

text \<open>
  C4. For the single order of wings and dip, \<open>create_features\<close> on a freshly constructed
  object returns the co-occurrence matrix with the value 1/2 for both pairs, and an empty
  market-basket rule set: the method reads \<open>self.item_cooccurrence\<close>, which is still the
  empty dict of \<open>__init__\<close>. With the matrix stored in the object the same call yields the
  rules wings \<rightarrow> dip and dip \<rightarrow> wings with confidence (1/2) / 1 = 1/2.
\<close>

theorem market_basket_rules_lost:
  "create_features FeatureEngineer_init wings_and_dip
     = Inr \<lparr>fs_item_frequency = [(''Wings'', 1 / 2), (''Dip'', 1 / 2)],
            fs_item_cooccurrence = [(''Wings'', [(''Dip'', 1 / 2)]), (''Dip'', [(''Wings'', 1 / 2)])],
            fs_market_basket = []\<rparr>
   \<and> create_market_basket_rules
       (FeatureEngineer_init\<lparr>self_item_cooccurrence := calculate_item_cooccurrence wings_and_dip\<rparr>)
       wings_and_dip
     = Inr [(''Wings'', [(''Dip'', 1 / 2)]), (''Dip'', [(''Wings'', 1 / 2)])]"
proof -
  have "create_market_basket_rules FeatureEngineer_init wings_and_dip = Inr []"
    by (rule rules_empty_without_cooccurrence) (simp add: FeatureEngineer_init_def)
  moreover have "calculate_item_frequency wings_and_dip = [(''Wings'', 1 / 2), (''Dip'', 1 / 2)]"
    by (simp add: calculate_item_frequency_def value_counts_def list_of_set_def wings_and_dip_def)
  ultimately have "create_features FeatureEngineer_init wings_and_dip
     = Inr \<lparr>fs_item_frequency = [(''Wings'', 1 / 2), (''Dip'', 1 / 2)],
            fs_item_cooccurrence = [(''Wings'', [(''Dip'', 1 / 2)]), (''Dip'', [(''Wings'', 1 / 2)])],
            fs_market_basket = []\<rparr>"
    by (simp add: create_features_def cooccurrence_wings_and_dip)
  then show ?thesis
    using rules_with_matrix_wings_and_dip by (rule conjI)
qed

text \<open>
  Read off the returned features: the matrix holds 1/2 for wings and dip, and the rule set
  is empty.
\<close>

theorem market_basket_rules_lost_witness:
  "\<exists>fs. create_features FeatureEngineer_init wings_and_dip = Inr fs
     \<and> fs_market_basket fs = []
     \<and> cooccurrence_of (fs_item_cooccurrence fs) ''Wings'' ''Dip'' = 1 / 2"
  using market_basket_rules_lost by (simp add: cooccurrence_of_def dict_get_def)

subsection \<open>Baseline recommender: the score blender\<close>

lemma keyset_dict_set: "fst ` set (dict_set k v d) = insert k (fst ` set d)"
  by (induction d) auto

lemma map_of_key: "k \<in> fst ` set d \<Longrightarrow> map_of d k = Some (dict_get d k dflt)"
  by (cases "map_of d k") (auto simp: dict_get_def map_of_eq_None_iff)

lemma generator_score_Cons:
  "generator_score ((k, s) # recs) item = (if k = item then s else 0) + generator_score recs item"
  by (simp add: generator_score_def)

lemma blend_get:
  "dict_get (blend w recs r) item 0 = dict_get r item 0 + generator_score recs item * w"
proof (induction recs arbitrary: r)
  case Nil
  show ?case by (simp add: blend_def generator_score_def)
next
  case (Cons p recs)
  obtain k s where p: "p = (k, s)" by (cases p)
  have "blend w (p # recs) r = blend w recs (dict_set k (dict_get r k 0 + s * w) r)"
    by (simp add: blend_def p)
  then show ?case
    by (simp add: Cons.IH p generator_score_Cons dict_get_dict_set algebra_simps)
qed

lemma blend_keys: "fst ` set (blend w recs r) = fst ` set r \<union> fst ` set recs"
proof (induction recs arbitrary: r)
  case Nil
  show ?case by (simp add: blend_def)
next
  case (Cons p recs)
  obtain k s where p: "p = (k, s)" by (cases p)
  have "blend w (p # recs) r = blend w recs (dict_set k (dict_get r k 0 + s * w) r)"
    by (simp add: blend_def p)
  then show ?case
    by (simp add: Cons.IH p keyset_dict_set)
qed

lemma blend_distinct: "distinct (map fst r) \<Longrightarrow> distinct (map fst (blend w recs r))"
proof (induction recs arbitrary: r)
  case Nil
  then show ?case by (simp add: blend_def)
next
  case (Cons p recs)
  obtain k s where p: "p = (k, s)" by (cases p)
  have "blend w (p # recs) r = blend w recs (dict_set k (dict_get r k 0 + s * w) r)"
    by (simp add: blend_def p)
  with Cons.IH [OF distinct_keys_dict_set [OF Cons.prems]] show ?case
    by simp
qed

lemma combined_scores_get:
  "dict_get (combined_scores fs order_items exclude_items) item 0
     = weighted_sum (get_cooccurrence_recommendations fs order_items exclude_items)
         (get_market_basket_recommendations fs order_items exclude_items)
         (get_category_recommendations fs order_items exclude_items)
         (get_popularity_recommendations fs exclude_items) item"
  by (simp add: combined_scores_def Let_def blend_get weighted_sum_def dict_get_Nil)

lemma combined_scores_keys:
  "fst ` set (combined_scores fs order_items exclude_items)
     = fst ` set (get_cooccurrence_recommendations fs order_items exclude_items)
       \<union> fst ` set (get_market_basket_recommendations fs order_items exclude_items)
       \<union> fst ` set (get_category_recommendations fs order_items exclude_items)
       \<union> fst ` set (get_popularity_recommendations fs exclude_items)"
  by (simp add: combined_scores_def Let_def blend_keys)

lemma combined_scores_distinct:
  "distinct (map fst (combined_scores fs order_items exclude_items))"
  by (simp add: combined_scores_def Let_def blend_distinct)

lemma sorted_by_score_desc_sorted:
  "sorted_wrt (\<lambda>p q. snd q \<le> snd p) (sorted_by_score_desc xs)"
proof -
  have "sorted (map (\<lambda>x. - snd x) (sort_key (\<lambda>x. - snd x) xs))"
    by (rule sorted_sort_key)
  then show ?thesis
    by (simp add: sorted_by_score_desc_def sorted_map)
qed

lemma sorted_by_score_desc_set: "set (sorted_by_score_desc xs) = set xs"
  by (simp add: sorted_by_score_desc_def)

lemma sorted_by_score_desc_length: "length (sorted_by_score_desc xs) = length xs"
  by (simp add: sorted_by_score_desc_def)

lemma top_of_sorted:
  assumes "sorted_wrt (\<lambda>p q. snd q \<le> snd p) xs"
  shows "\<forall>x \<in> set (take n xs). \<forall>y \<in> set (drop n xs). snd y \<le> snd x"
proof -
  from assms have "sorted_wrt (\<lambda>p q. snd q \<le> snd p) (take n xs @ drop n xs)" by simp
  then show ?thesis unfolding sorted_wrt_append by blast
qed

text \<open>
  C3. The blended dict has one entry per item that any of the four generators returns, and
  the entry of an item is 0.4, 0.3, 0.2 and 0.1 times the scores the co-occurrence,
  market-basket, category and popularity generators give it, added up. The items are put
  in descending order of this score, and the result is the first three of that order (all
  of them when there are fewer than three): no item left out has a higher score than a
  returned one.
\<close>

theorem score_blender:
  "distinct (map fst (combined_scores fs order_items exclude_items))
   \<and> fst ` set (combined_scores fs order_items exclude_items)
       = fst ` set (get_cooccurrence_recommendations fs order_items exclude_items)
         \<union> fst ` set (get_market_basket_recommendations fs order_items exclude_items)
         \<union> fst ` set (get_category_recommendations fs order_items exclude_items)
         \<union> fst ` set (get_popularity_recommendations fs exclude_items)
   \<and> (\<forall>item \<in> fst ` set (combined_scores fs order_items exclude_items).
         map_of (combined_scores fs order_items exclude_items) item
           = Some (weighted_sum
                (get_cooccurrence_recommendations fs order_items exclude_items)
                (get_market_basket_recommendations fs order_items exclude_items)
                (get_category_recommendations fs order_items exclude_items)
                (get_popularity_recommendations fs exclude_items) item))
   \<and> sorted_wrt (\<lambda>p q. snd q \<le> snd p)
         (sorted_by_score_desc (combined_scores fs order_items exclude_items))
   \<and> set (sorted_by_score_desc (combined_scores fs order_items exclude_items))
       = set (combined_scores fs order_items exclude_items)
   \<and> recommend_items fs order_items (Some exclude_items)
       = map fst (take 3 (sorted_by_score_desc (combined_scores fs order_items exclude_items)))
   \<and> (\<forall>x \<in> set (take 3 (sorted_by_score_desc (combined_scores fs order_items exclude_items))).
       \<forall>y \<in> set (drop 3 (sorted_by_score_desc (combined_scores fs order_items exclude_items))).
         snd y \<le> snd x)
   \<and> length (recommend_items fs order_items (Some exclude_items))
       = min 3 (length (combined_scores fs order_items exclude_items))"
proof -
  let ?scores = "combined_scores fs order_items exclude_items"
  have "\<forall>item \<in> fst ` set ?scores. map_of ?scores item
           = Some (weighted_sum
                (get_cooccurrence_recommendations fs order_items exclude_items)
                (get_market_basket_recommendations fs order_items exclude_items)
                (get_category_recommendations fs order_items exclude_items)
                (get_popularity_recommendations fs exclude_items) item)"
    using map_of_key [of _ ?scores 0] by (simp only: combined_scores_get) blast
  moreover have "recommend_items fs order_items (Some exclude_items)
       = map fst (take 3 (sorted_by_score_desc ?scores))"
    by (simp add: recommend_items_def)
  moreover from this have "length (recommend_items fs order_items (Some exclude_items))
       = min 3 (length ?scores)"
    by (simp add: sorted_by_score_desc_length min.commute)
  ultimately show ?thesis
    using combined_scores_distinct [of fs order_items exclude_items]
      combined_scores_keys [of fs order_items exclude_items]
      sorted_by_score_desc_sorted [of ?scores]
      sorted_by_score_desc_set [of ?scores]
      top_of_sorted [OF sorted_by_score_desc_sorted, of 3 ?scores]
    by (intro conjI)
qed

lemma scenario_scores:
  "combined_scores scenario_features [''Traditional Wings''] [''Traditional Wings'']
     = [(''Ranch Dip'', 1 / 12), (''Fries'', 1 / 10), (''Soda'', 1 / 60)]"
  by (simp add: combined_scores_def scenario_features_def
        get_cooccurrence_recommendations_def get_market_basket_recommendations_def
        get_category_recommendations_def get_popularity_recommendations_def
        get_complementary_categories_def sorted_by_score_desc_def
        blend_def add_score_def dict_get_def)

text \<open>
  The scenario of the specification: with wings in the cart, fries (1/10) and ranch dip
  (1/12) come before soda (1/60).
\<close>

theorem score_blender_witness:
  "recommend_items scenario_features [''Traditional Wings''] (Some [''Traditional Wings''])
     = [''Fries'', ''Ranch Dip'', ''Soda'']
   \<and> map_of (combined_scores scenario_features [''Traditional Wings''] [''Traditional Wings''])
        ''Fries'' = Some (1 / 10)"
  using score_blender [of scenario_features "[''Traditional Wings'']" "[''Traditional Wings'']"]
  by (simp add: scenario_scores sorted_by_score_desc_def)

subsection \<open>Baseline recommender: \<open>predict\<close>\<close>

lemma pad_recs_eq: "pad_recs recs = recs @ replicate (3 - length recs) ''popular_item_fallback''"
proof (induction recs rule: pad_recs.induct)
  case (1 recs)
  show ?case
  proof (cases "length recs < 3")
    case True
    then have n: "3 - length recs = Suc (2 - length recs)" by simp
    have "pad_recs recs = pad_recs (recs @ [''popular_item_fallback''])"
      using True by (subst pad_recs.simps) simp
    also have "\<dots> = (recs @ [''popular_item_fallback''])
          @ replicate (3 - length (recs @ [''popular_item_fallback''])) ''popular_item_fallback''"
      using True by (rule "1.IH")
    also have "\<dots> = recs @ replicate (3 - length recs) ''popular_item_fallback''"
      by (simp only: n append_assoc append_Cons append_Nil replicate_Suc length_append
            list.size) simp
    finally show ?thesis .
  next
    case False
    then show ?thesis by (subst pad_recs.simps) simp
  qed
qed

lemma three_elements: "length xs = 3 \<Longrightarrow> \<exists>a b c. xs = [a, b, c]"
  by (auto simp: length_Suc_conv numeral_3_eq_3)

lemma fold_unchanged: "fold (\<lambda>item acc. acc) xs acc = acc"
  by (induction xs) simp_all

lemma length_recommend_items: "length (recommend_items fs order_items exclude_items) \<le> 3"
  by (simp add: recommend_items_def Let_def)

lemma length_padded: "length (padded fs row) = 3"
  using length_recommend_items [of fs "extract_order_items row" "Some (extract_order_items row)"]
  by (simp add: padded_def Let_def)

lemma predict_row_ok:
  "\<exists>p. predict_row (Some fs) idx row = Inr p
       \<and> [p_RECOMMENDATION_1 p, p_RECOMMENDATION_2 p, p_RECOMMENDATION_3 p] = padded fs row"
proof -
  obtain r1 r2 r3 where r: "padded fs row = [r1, r2, r3]"
    using three_elements [OF length_padded [of fs row]] by blast
  then have "pad_recs (recommend_items fs (extract_order_items row) (Some (extract_order_items row)))
      = [r1, r2, r3]"
    by (simp add: pad_recs_eq padded_def Let_def)
  then show ?thesis
    by (simp add: predict_row_def Let_def r)
qed

lemma predict_rows_ok:
  "\<exists>out. predict_rows (Some fs) test_data = Inr out
       \<and> list_all2 (\<lambda>r p. [p_RECOMMENDATION_1 p, p_RECOMMENDATION_2 p, p_RECOMMENDATION_3 p]
                              = padded fs (snd r)) test_data out"
proof (induction test_data)
  case Nil
  show ?case by simp
next
  case (Cons r rest)
  obtain idx row where r: "r = (idx, row)" by (cases r)
  from predict_row_ok [of fs idx row] obtain p where
    p: "predict_row (Some fs) idx row = Inr p"
       "[p_RECOMMENDATION_1 p, p_RECOMMENDATION_2 p, p_RECOMMENDATION_3 p] = padded fs row"
    by blast
  from Cons.IH obtain out where
    out: "predict_rows (Some fs) rest = Inr out"
       "list_all2 (\<lambda>r p. [p_RECOMMENDATION_1 p, p_RECOMMENDATION_2 p, p_RECOMMENDATION_3 p]
                              = padded fs (snd r)) rest out"
    by blast
  show ?case
    by (simp add: r p out)
qed

text \<open>
  C10. On a trained engine \<open>predict\<close> returns one output row per test row, and the three
  recommendation fields of a row are the blender's items for that row followed by as many
  copies of the literal \<open>popular_item_fallback\<close> as are needed to make three.
\<close>

theorem predict_three_recommendations:
  assumes "e_trained self" and "e_features self = Some fs"
  shows "\<exists>out. predict self test_data = Inr out
     \<and> length out = length test_data
     \<and> (\<forall>i < length test_data.
           [p_RECOMMENDATION_1 (out ! i), p_RECOMMENDATION_2 (out ! i),
            p_RECOMMENDATION_3 (out ! i)] = padded fs (snd (test_data ! i))
         \<and> length (padded fs (snd (test_data ! i))) = 3
         \<and> padded fs (snd (test_data ! i))
             = (let order_items = extract_order_items (snd (test_data ! i));
                    recs = recommend_items fs order_items (Some order_items)
                in recs @ replicate (3 - length recs) ''popular_item_fallback''))"
proof -
  from predict_rows_ok [of fs test_data] obtain out where
    out: "predict_rows (Some fs) test_data = Inr out"
       "list_all2 (\<lambda>r p. [p_RECOMMENDATION_1 p, p_RECOMMENDATION_2 p, p_RECOMMENDATION_3 p]
                              = padded fs (snd r)) test_data out"
    by blast
  from out(2) have len: "length out = length test_data"
    by (simp add: list_all2_lengthD)
  from out(2) have nth: "\<forall>i < length test_data.
      [p_RECOMMENDATION_1 (out ! i), p_RECOMMENDATION_2 (out ! i), p_RECOMMENDATION_3 (out ! i)]
        = padded fs (snd (test_data ! i))"
    by (simp add: list_all2_conv_all_nth)
  have "predict self test_data = Inr out"
    using assms out(1) by (simp add: predict_def)
  with len nth show ?thesis
    by (auto simp: length_padded) (simp add: padded_def)
qed

lemma empty_scores: "recommend_items empty_features items (Some items) = []"
  by (simp add: recommend_items_def combined_scores_def empty_features_def blend_def
        get_cooccurrence_recommendations_def get_market_basket_recommendations_def
        get_category_recommendations_def get_popularity_recommendations_def
        sorted_by_score_desc_def fold_unchanged)

text \<open>
  An engine trained on empty features: the blender finds nothing and all three fields of
  the row are the literal.
\<close>

theorem predict_three_recommendations_witness:
  "\<exists>out. predict trained_on_nothing one_test_row = Inr out
     \<and> length out = 1
     \<and> [p_RECOMMENDATION_1 (out ! 0), p_RECOMMENDATION_2 (out ! 0), p_RECOMMENDATION_3 (out ! 0)]
         = [''popular_item_fallback'', ''popular_item_fallback'', ''popular_item_fallback'']"
proof -
  have t: "e_trained trained_on_nothing" "e_features trained_on_nothing = Some empty_features"
    by (simp_all add: trained_on_nothing_def)
  have p: "padded empty_features row = replicate 3 ''popular_item_fallback''" for row
    by (simp add: padded_def empty_scores)
  from predict_three_recommendations [OF t, of one_test_row]
  show ?thesis
    by (auto simp: p one_test_row_def numeral_3_eq_3)
qed

subsection \<open>Enhanced recommender\<close>


lemma first_helper_unbound: "''_get_wings_r_us_recommendations'' \<notin> set engine_attributes"
  by (simp add: engine_attributes_def instance_attributes_def class_methods_def)

lemma helpers_unbound: "set helper_names \<inter> set engine_attributes = {}"
  by (simp add: helper_names_def engine_attributes_def instance_attributes_def class_methods_def)

text \<open>
  C2. On an instance of the class as written, every call of
  \<open>generate_fresh_recommendations\<close> raises \<open>AttributeError\<close> at its first helper call,
  whatever the arguments, the clock, the random source and the history: none of the nine
  helper names is an attribute of the object, while the differently named mock helpers
  are.
\<close>

theorem fresh_recommendations_attribute_error:
  "generate_fresh_recommendations engine_attributes h clock pick recommendation_history
      customer_id current_items customer_type platform store_number
     = Inl (AttributeError ''_get_wings_r_us_recommendations'')
   \<and> set helper_names \<inter> set engine_attributes = {}
   \<and> set [''_get_base_recommendations'', ''_get_trending_items'', ''_get_seasonal_items'',
            ''_get_fallback_items'', ''_calculate_confidence'', ''_generate_explanation'',
            ''_get_item_category''] \<subseteq> set engine_attributes"
proof -
  have "generate_fresh_recommendations engine_attributes h clock pick recommendation_history
      customer_id current_items customer_type platform store_number
     = Inl (AttributeError ''_get_wings_r_us_recommendations'')"
    by (simp add: generate_fresh_recommendations_def getattr_def first_helper_unbound Let_def)
  moreover have "set [''_get_base_recommendations'', ''_get_trending_items'', ''_get_seasonal_items'',
            ''_get_fallback_items'', ''_calculate_confidence'', ''_generate_explanation'',
            ''_get_item_category''] \<subseteq> set engine_attributes"
    by (simp add: engine_attributes_def instance_attributes_def class_methods_def)
  ultimately show ?thesis
    using helpers_unbound by simp
qed

text \<open>
  The call of the scenario on the class as written.
\<close>

theorem fresh_recommendations_attribute_error_witness:
  "generate_fresh_recommendations engine_attributes mock_helpers two_days_later first_position
      shown_before ''customer_1'' [''Traditional Wings''] ''Guest'' ''Digital'' None
     = Inl (AttributeError ''_get_wings_r_us_recommendations'')"
  using fresh_recommendations_attribute_error
          [of mock_helpers two_days_later first_position shown_before "''customer_1''"
              "[''Traditional Wings'']" "''Guest''" "''Digital''" None]
  by simp





















end
